theory Spec2Isabelle
  imports Complex_Main "HOL-Library.Sublist"
begin

section \<open>Values, series and errors\<close>

text \<open>
  A numeric table entry. \<open>Num x\<close> is a number (floats are read as exact reals, integers
  and the booleans 1/0 are numbers too), \<open>NaN\<close> is the missing value of a float64 or
  object column, \<open>NA\<close> the missing value of a nullable column (\<open>Int64\<close>, which the
  loader uses for footrot, dag, temperament and cull flag).
\<close>

datatype cell = Num real | NaN | NA

datatype error =
    ValueError string
  | TypeError string
  | KeyError string

fun isna :: "cell \<Rightarrow> bool" where
  "isna (Num x) = False"
| "isna NaN = True"
| "isna NA = True"

text \<open>\<open>Series.dropna()\<close>: the non-missing numbers, in order.\<close>

fun dropna :: "cell list \<Rightarrow> real list" where
  "dropna [] = []"
| "dropna (Num x # cs) = x # dropna cs"
| "dropna (NaN # cs) = dropna cs"
| "dropna (NA # cs) = dropna cs"

text \<open>\<open>fillna(0)\<close> on one entry.\<close>

fun fillna0 :: "cell \<Rightarrow> cell" where
  "fillna0 (Num x) = Num x"
| "fillna0 NaN = Num 0"
| "fillna0 NA = Num 0"

section \<open>Configuration (core/models.py)\<close>

text \<open>
  The record is generic in the type of a weight: the scoring layer below is stated for
  configurations whose weights are finite numbers (reals), the constructor for the
  Python floats it is given.
\<close>

record 'w AnalysisConfig =
  contemporary_group_window_days :: int
  normalization_method :: string
  min_birth_weight :: real
  max_footrot_score :: int
  max_dag_score :: int
  min_weaning_weight :: real
  max_micron :: real
  bse_pass_required :: bool
  weights :: "(string \<times> 'w) list"

text \<open>
  A Python float: a finite number (read as an exact real), an infinity or NaN. Addition
  follows IEEE 754 on the special values.
\<close>

datatype pyfloat = Float real | PosInf | NegInf | FloatNaN

fun py_add :: "pyfloat \<Rightarrow> pyfloat \<Rightarrow> pyfloat" where
  "py_add FloatNaN y = FloatNaN"
| "py_add x FloatNaN = FloatNaN"
| "py_add PosInf NegInf = FloatNaN"
| "py_add NegInf PosInf = FloatNaN"
| "py_add PosInf y = PosInf"
| "py_add x PosInf = PosInf"
| "py_add NegInf y = NegInf"
| "py_add x NegInf = NegInf"
| "py_add (Float a) (Float b) = Float (a + b)"

text \<open>
  The keyword arguments of the constructor: a field that is not passed takes its default.
  A dict is the list of its items in insertion order. The per-category trait weights are
  left out: no validator checks them and the scoring layer does not read them.
\<close>

record AnalysisConfig_kwargs =
  kw_contemporary_group_window_days :: "int option"
  kw_normalization_method :: "string option"
  kw_min_birth_weight :: "real option"
  kw_max_footrot_score :: "int option"
  kw_max_dag_score :: "int option"
  kw_min_weaning_weight :: "real option"
  kw_max_micron :: "real option"
  kw_bse_pass_required :: "bool option"
  kw_weights :: "(string \<times> pyfloat) list option"

definition default_weights :: "(string \<times> real) list" where
  "default_weights =
     [(''growth'', 3/10), (''wool'', 2/10), (''reproduction'', 2/10),
      (''health'', 2/10), (''temperament'', 1/10)]"

text \<open>\<open>sum(v.values())\<close>: from 0, left to right.\<close>

definition dict_values_sum :: "(string \<times> pyfloat) list \<Rightarrow> pyfloat" where
  "dict_values_sum v = foldl py_add (Float 0) (map snd v)"

text \<open>
  \<open>abs(s - 1.0) > 0.001\<close>: True on an infinite sum, and False on NaN, on which every
  comparison is False.
\<close>

fun off_tolerance :: "pyfloat \<Rightarrow> bool" where
  "off_tolerance (Float s) = (\<bar>s - 1\<bar> > 1/1000)"
| "off_tolerance PosInf = True"
| "off_tolerance NegInf = True"
| "off_tolerance FloatNaN = False"

text \<open>\<open>validate_weights_sum\<close>: raise when \<open>abs(sum(v.values()) - 1.0) > 0.001\<close>.\<close>

definition validate_weights_sum ::
  "(string \<times> pyfloat) list \<Rightarrow> error + (string \<times> pyfloat) list" where
  "validate_weights_sum v =
     (if off_tolerance (dict_values_sum v)
      then Inl (ValueError ''Weights must sum to 1.0'')
      else Inr v)"

definition or_default :: "'a option \<Rightarrow> 'a \<Rightarrow> 'a" where
  "or_default x d = (case x of None \<Rightarrow> d | Some y \<Rightarrow> y)"

text \<open>
  Construction. The field validator runs on a weights dict that is passed; the default
  dict is taken as it is. The ValueError of the validator is what the construction fails
  with (pydantic reports it as its validation error).
\<close>

definition AnalysisConfig_init :: "AnalysisConfig_kwargs \<Rightarrow> error + pyfloat AnalysisConfig" where
  "AnalysisConfig_init kw =
     (case (case kw_weights kw of
              None \<Rightarrow> Inr (map (\<lambda>(category, w). (category, Float w)) default_weights)
            | Some v \<Rightarrow> validate_weights_sum v) of
        Inl e \<Rightarrow> Inl e
      | Inr w \<Rightarrow> Inr \<lparr>
          contemporary_group_window_days = or_default (kw_contemporary_group_window_days kw) 30,
          normalization_method = or_default (kw_normalization_method kw) ''percentile'',
          min_birth_weight = or_default (kw_min_birth_weight kw) 2,
          max_footrot_score = or_default (kw_max_footrot_score kw) 4,
          max_dag_score = or_default (kw_max_dag_score kw) 4,
          min_weaning_weight = or_default (kw_min_weaning_weight kw) 20,
          max_micron = or_default (kw_max_micron kw) 25,
          bse_pass_required = or_default (kw_bse_pass_required kw) True,
          weights = w \<rparr>)"

definition no_kwargs :: AnalysisConfig_kwargs where
  "no_kwargs = \<lparr>
     kw_contemporary_group_window_days = None, kw_normalization_method = None,
     kw_min_birth_weight = None, kw_max_footrot_score = None, kw_max_dag_score = None,
     kw_min_weaning_weight = None, kw_max_micron = None, kw_bse_pass_required = None,
     kw_weights = None \<rparr>"

text \<open>\<open>AnalysisConfig()\<close>, the configuration every engine falls back to.\<close>

definition default_config :: "real AnalysisConfig" where
  "default_config = \<lparr>
     contemporary_group_window_days = 30, normalization_method = ''percentile'',
     min_birth_weight = 2, max_footrot_score = 4, max_dag_score = 4,
     min_weaning_weight = 20, max_micron = 25, bse_pass_required = True,
     weights = default_weights \<rparr>"

section \<open>Trait standardizer (processing/standardizer.py)\<close>

text \<open>
  \<open>_percentile_standardize\<close>: every non-missing entry becomes
  \<open>(valid_values <= val).sum() / len(valid_values) * 100\<close>, a missing one stays NaN.
  The division is numpy's: with no valid value the count is 0 and 0/0 is NaN.
\<close>

definition percentile_standardize :: "cell list \<Rightarrow> real list \<Rightarrow> cell list" where
  "percentile_standardize values valid_values =
     map (\<lambda>val. case val of
            Num v \<Rightarrow>
              (if length valid_values = 0 then NaN
               else Num (real (length (filter (\<lambda>x. x \<le> v) valid_values))
                          / real (length valid_values) * 100))
          | NaN \<Rightarrow> NaN
          | NA \<Rightarrow> NaN) values"

text \<open>
  The mean of the non-missing entries in exact arithmetic. The category scores of the
  ranking engine use it.
\<close>

definition series_mean :: "real list \<Rightarrow> cell" where
  "series_mean xs = (if xs = [] then NaN else Num (sum_list xs / real (length xs)))"

subsection \<open>Double precision\<close>

text \<open>
  Whether a deviation is exactly 0 is decided by rounding, so the mean and the deviation
  of the z-score are computed as pandas does, in IEEE 754 double precision: every
  operation is the exact one followed by \<open>fl\<close>, rounding to the nearest double, ties
  to even. A nonzero magnitude is scaled by powers of two into the interval from
  \<open>2^52\<close> to \<open>2^53\<close> (the 1100 steps cover the exponent range of a double), rounded
  to an integer there and scaled back. Overflow and subnormal numbers are not modelled.
  The entries of a float column are doubles themselves.
\<close>

definition round_half_even :: "real \<Rightarrow> int" where
  "round_half_even x =
     (let f = \<lfloor>x\<rfloor>; d = x - of_int f
      in if d < 1/2 then f else if 1/2 < d then f + 1 else if even f then f else f + 1)"

fun scale52 :: "nat \<Rightarrow> real \<Rightarrow> int \<Rightarrow> real \<times> int" where
  "scale52 0 m e = (m, e)"
| "scale52 (Suc n) m e =
     (if 2 ^ 53 \<le> m then scale52 n (m / 2) (e + 1)
      else if m < 2 ^ 52 then scale52 n (m * 2) (e - 1)
      else (m, e))"

definition pow2 :: "int \<Rightarrow> real" where
  "pow2 e = (if 0 \<le> e then 2 ^ nat e else 1 / 2 ^ nat (- e))"

definition fl :: "real \<Rightarrow> real" where
  "fl x =
     (if x = 0 then 0
      else let (m, e) = scale52 1100 \<bar>x\<bar> 0
           in sgn x * real_of_int (round_half_even m) * pow2 e)"

text \<open>The sum of a float column: from 0, left to right.\<close>

definition float_sum :: "real list \<Rightarrow> real" where
  "float_sum xs = foldl (\<lambda>a x. fl (a + x)) 0 xs"

text \<open>\<open>Series.mean()\<close>: the sum over the count.\<close>

definition float_mean :: "real list \<Rightarrow> cell" where
  "float_mean xs = (if xs = [] then NaN else Num (fl (float_sum xs / real (length xs))))"

text \<open>
  \<open>Series.std()\<close>, the sample deviation (ddof = 1): the mean, the squares of the
  differences \<open>avg - values\<close>, their sum over the count less one, and the square root.
\<close>

definition float_var :: "real list \<Rightarrow> real" where
  "float_var xs =
     (let avg = fl (float_sum xs / real (length xs));
          sqr = map (\<lambda>x. fl ((fl (avg - x))\<^sup>2)) xs
      in fl (float_sum sqr / real (length xs - 1)))"

definition float_std :: "real list \<Rightarrow> cell" where
  "float_std xs = (if length xs < 2 then NaN else Num (fl (sqrt (float_var xs))))"

text \<open>
  \<open>_zscore_standardize\<close>: a deviation that is exactly 0 returns 0 for every entry of
  \<open>values\<close> (the missing ones too); otherwise \<open>(values - mean) / std\<close>, each operation
  rounded, where a missing entry stays missing and a NaN mean or deviation makes every
  number NaN.
\<close>

definition zscore_standardize :: "cell list \<Rightarrow> real list \<Rightarrow> cell list" where
  "zscore_standardize values valid_values =
     (let mean_val = float_mean valid_values;
          std_val = float_std valid_values
      in if std_val = Num 0 then replicate (length values) (Num 0)
         else map (\<lambda>val. case val of
                     Num v \<Rightarrow>
                       (case (mean_val, std_val) of
                          (Num m, Num s) \<Rightarrow> Num (fl (fl (v - m) / s))
                        | _ \<Rightarrow> NaN)
                   | NaN \<Rightarrow> NaN
                   | NA \<Rightarrow> NA) values)"

text \<open>\<open>_standardize_trait\<close> for a standardizer whose \<open>method\<close> is the given string.\<close>

definition standardize_trait :: "string \<Rightarrow> cell list \<Rightarrow> error + cell list" where
  "standardize_trait method values =
     (let valid_values = dropna values
      in if length valid_values < 2 then Inr (replicate (length values) NaN)
         else if method = ''percentile'' then Inr (percentile_standardize values valid_values)
         else if method = ''zscore'' then Inr (zscore_standardize values valid_values)
         else Inl (ValueError (''Unknown standardization method: '' @ method)))"

text \<open>
  The counts the percentile is specified with, taken over the cohort's entries themselves.
\<close>

definition count_le :: "cell list \<Rightarrow> real \<Rightarrow> nat" where
  "count_le values v =
     length (filter (\<lambda>c. case c of Num x \<Rightarrow> x \<le> v | NaN \<Rightarrow> False | NA \<Rightarrow> False) values)"

definition count_valid :: "cell list \<Rightarrow> nat" where
  "count_valid values = length (filter (\<lambda>c. \<not> isna c) values)"

text \<open>The percentile as the specification words it: the share of the cohort's non-missing
  values that are at most \<open>v\<close>, times 100.\<close>

definition percentile_of :: "cell list \<Rightarrow> real \<Rightarrow> real" where
  "percentile_of values v = real (count_le values v) / real (count_valid values) * 100"

section \<open>Tables\<close>

text \<open>
  A DataFrame is its column labels and its rows, in index order; a row is the Series of
  its entries by column label. Only the numeric columns are kept: the scoring layer reads
  no other.
\<close>

type_synonym row = "string \<rightharpoonup> cell"

record dataframe =
  columns :: "string list"
  rows :: "row list"

text \<open>
  The entry of a row under a column label. Every read below is of a column the table has;
  a label the row lacks reads as NaN.
\<close>

definition cell_of :: "row \<Rightarrow> string \<Rightarrow> cell" where
  "cell_of r c = (case r c of Some v \<Rightarrow> v | None \<Rightarrow> NaN)"

text \<open>\<open>df[c] = values\<close>: an existing column is overwritten, a new one is appended.\<close>

definition set_column :: "string \<Rightarrow> cell list \<Rightarrow> dataframe \<Rightarrow> dataframe" where
  "set_column c vs df =
     \<lparr> columns = (if c \<in> set (columns df) then columns df else columns df @ [c]),
       rows = map2 (\<lambda>r v. r(c \<mapsto> v)) (rows df) vs \<rparr>"

definition get_column :: "dataframe \<Rightarrow> string \<Rightarrow> cell list" where
  "get_column df c = map (\<lambda>r. cell_of r c) (rows df)"

section \<open>Ranking engine (scoring/ranker.py)\<close>

definition growth_traits :: "string list" where
  "growth_traits = [''adg_100_200d'', ''adg_200_300d'', ''wt_200d_adj'', ''wt_300d_adj'']"

definition wool_traits :: "string list" where
  "wool_traits = [''gfw'', ''cfw'', ''micron_score'', ''staple_len_score'']"

definition repro_traits :: "string list" where
  "repro_traits = [''weaning_rate'', ''lambs_weaned'', ''pregnancy_success'']"

definition health_traits :: "string list" where
  "health_traits = [''fec_score'', ''footrot_score'', ''dag_score'']"

text \<open>\<open>mean(axis=1, skipna=True)\<close> of one row: NaN when every entry is missing.\<close>

definition row_mean :: "cell list \<Rightarrow> cell" where
  "row_mean cs = series_mean (dropna cs)"

text \<open>
  The growth, wool and reproduction blocks: the row mean of the trait columns that exist,
  with \<open>fillna(0)\<close>; 0 for every row when none exists.
\<close>

definition category_mean :: "dataframe \<Rightarrow> string list \<Rightarrow> cell list" where
  "category_mean df traits =
     (let available_traits = filter (\<lambda>t. t \<in> set (columns df)) traits
      in if available_traits \<noteq> []
         then map (\<lambda>r. fillna0 (row_mean (map (cell_of r) available_traits))) (rows df)
         else replicate (length (rows df)) (Num 0))"

fun invert5 :: "cell \<Rightarrow> cell" where
  "invert5 (Num x) = Num (5 - x)"
| "invert5 NaN = NaN"
| "invert5 NA = NA"

text \<open>The health block: footrot and dag scores are replaced by \<open>5 - score\<close> first.\<close>

definition health_mean :: "dataframe \<Rightarrow> cell list" where
  "health_mean df =
     (let available_traits = filter (\<lambda>t. t \<in> set (columns df)) health_traits
      in if available_traits \<noteq> []
         then map (\<lambda>r. fillna0 (row_mean
                     (map (\<lambda>t. if t = ''footrot_score'' \<or> t = ''dag_score''
                                then invert5 (cell_of r t) else cell_of r t)
                          available_traits))) (rows df)
         else replicate (length (rows df)) (Num 0))"

definition temperament_values :: "dataframe \<Rightarrow> cell list" where
  "temperament_values df =
     (if ''temperament'' \<in> set (columns df)
      then map (\<lambda>r. fillna0 (cell_of r ''temperament'')) (rows df)
      else replicate (length (rows df)) (Num 0))"

text \<open>
  \<open>_calculate_category_scores\<close>. Every test and every read is on the input \<open>df\<close>;
  the writes go to the copy \<open>result_df\<close>.
\<close>

definition calculate_category_scores :: "dataframe \<Rightarrow> dataframe" where
  "calculate_category_scores df =
     (let r0 = df;
          r1 = (if ''growth_score'' \<notin> set (columns df)
                then set_column ''growth_score'' (category_mean df growth_traits) r0 else r0);
          r2 = (if ''wool_score'' \<notin> set (columns df)
                then set_column ''wool_score'' (category_mean df wool_traits) r1 else r1);
          r3 = (if ''reproduction_score'' \<notin> set (columns df)
                then set_column ''reproduction_score'' (category_mean df repro_traits) r2 else r2);
          r4 = (if ''health_score'' \<notin> set (columns df)
                then set_column ''health_score'' (health_mean df) r3 else r3);
          r5 = (if ''temperament_score'' \<notin> set (columns df)
                then set_column ''temperament_score'' (temperament_values df) r4 else r4)
      in r5)"

text \<open>The sum over a row skips missing products: they count as 0.\<close>

fun num0 :: "cell \<Rightarrow> real" where
  "num0 (Num x) = x"
| "num0 NaN = 0"
| "num0 NA = 0"

definition score_col :: "string \<Rightarrow> string" where
  "score_col category = category @ ''_score''"

text \<open>
  \<open>_calculate_composite_score\<close>. The weights dict is the list of its items, so the
  lookup \<open>weights.get(category, 0)\<close> of a key of the dict is the item's value.
\<close>

definition calculate_composite_score :: "real AnalysisConfig \<Rightarrow> dataframe \<Rightarrow> dataframe" where
  "calculate_composite_score cfg df =
     (let category_scores = filter (\<lambda>(category, w). score_col category \<in> set (columns df))
                              (weights cfg)
      in if category_scores = []
         then set_column ''composite_score'' (replicate (length (rows df)) (Num 0)) df
         else
           let weighted = filter (\<lambda>(category, w). w > 0) category_scores;
               total_weight = sum_list (map snd weighted)
           in if weighted \<noteq> [] \<and> total_weight > 0
              then set_column ''composite_score''
                     (map (\<lambda>r. Num (sum_list
                              (map (\<lambda>(category, w). num0 (cell_of r (score_col category)) * w)
                                   weighted) / total_weight)) (rows df)) df
              else set_column ''composite_score'' (replicate (length (rows df)) (Num 0)) df)"

text \<open>
  pandas' \<open>rank(ascending=False, method='min')\<close>: the non-missing values are put in
  descending order and a value gets the first position (from 1) at which it stands there;
  a missing value has no rank.
\<close>

fun first_index :: "real list \<Rightarrow> real \<Rightarrow> nat" where
  "first_index [] x = 0"
| "first_index (y # ys) x = (if y = x then 0 else Suc (first_index ys x))"

definition series_rank_desc_min :: "cell list \<Rightarrow> cell list" where
  "series_rank_desc_min s =
     (let ordered = rev (sort (dropna s))
      in map (\<lambda>c. case c of
                Num x \<Rightarrow> Num (real (first_index ordered x + 1))
              | NaN \<Rightarrow> NaN
              | NA \<Rightarrow> NaN) s)"

text \<open>\<open>_add_ranking\<close>; \<open>astype(int)\<close> raises on a missing rank.\<close>

definition add_ranking :: "dataframe \<Rightarrow> error + dataframe" where
  "add_ranking df =
     (if ''composite_score'' \<in> set (columns df)
      then let ranks = series_rank_desc_min (get_column df ''composite_score'')
           in if list_ex isna ranks
              then Inl (ValueError ''Cannot convert non-finite values (NA or inf) to integer'')
              else Inr (set_column ''rank'' ranks df)
      else Inr (set_column ''rank'' (replicate (length (rows df)) (Num 1)) df))"

definition calculate_scores :: "real AnalysisConfig \<Rightarrow> dataframe \<Rightarrow> error + dataframe" where
  "calculate_scores cfg df =
     add_ranking (calculate_composite_score cfg (calculate_category_scores df))"

text \<open>The number of rows of a table whose composite score is strictly above \<open>x\<close>.\<close>

definition count_higher :: "dataframe \<Rightarrow> real \<Rightarrow> nat" where
  "count_higher df x =
     length (filter (\<lambda>r. case cell_of r ''composite_score'' of
                            Num y \<Rightarrow> x < y | NaN \<Rightarrow> False | NA \<Rightarrow> False) (rows df))"

text \<open>The five trait categories and their score columns.\<close>

definition categories :: "string list" where
  "categories = [''growth'', ''wool'', ''reproduction'', ''health'', ''temperament'']"

definition score_columns :: "string list" where
  "score_columns = [''growth_score'', ''wool_score'', ''reproduction_score'',
                    ''health_score'', ''temperament_score'']"

text \<open>
  The categories that enter the composite score of a table with the given columns: a
  positive weight and a score column in the table.
\<close>

definition weighted_categories :: "real AnalysisConfig \<Rightarrow> string list \<Rightarrow> (string \<times> real) list" where
  "weighted_categories cfg cols =
     filter (\<lambda>(category, w). score_col category \<in> set cols \<and> 0 < w) (weights cfg)"

text \<open>The values \<open>_calculate_composite_score\<close> writes, in one expression.\<close>

definition composite_values :: "real AnalysisConfig \<Rightarrow> dataframe \<Rightarrow> cell list" where
  "composite_values cfg df =
     (let weighted = filter (\<lambda>(category, w). w > 0)
                       (filter (\<lambda>(category, w). score_col category \<in> set (columns df))
                          (weights cfg));
          total_weight = sum_list (map snd weighted)
      in if weighted \<noteq> []
         then map (\<lambda>r. Num (sum_list
                              (map (\<lambda>(category, w). num0 (cell_of r (score_col category)) * w)
                                   weighted) / total_weight)) (rows df)
         else replicate (length (rows df)) (Num 0))"

subsection \<open>The composite score as the specification words it\<close>

text \<open>
  A category is present for an animal when the animal has a value for it: a non-missing
  entry in the category's score column where the table has one, in one of the category's
  trait columns otherwise.
\<close>

definition category_traits :: "string \<Rightarrow> string list" where
  "category_traits category =
     (if category = ''growth'' then growth_traits
      else if category = ''wool'' then wool_traits
      else if category = ''reproduction'' then repro_traits
      else if category = ''health'' then health_traits
      else if category = ''temperament'' then [''temperament'']
      else [])"

definition category_present :: "dataframe \<Rightarrow> row \<Rightarrow> string \<Rightarrow> bool" where
  "category_present df r category =
     (if score_col category \<in> set (columns df) then \<not> isna (cell_of r (score_col category))
      else list_ex (\<lambda>t. t \<in> set (columns df) \<and> \<not> isna (cell_of r t))
             (category_traits category))"

text \<open>
  The weighted category scores of animal \<open>i\<close> over the sum of the weights of the
  categories present for it.
\<close>

definition spec_renormalized_composite :: "real AnalysisConfig \<Rightarrow> dataframe \<Rightarrow> nat \<Rightarrow> real" where
  "spec_renormalized_composite cfg df i =
     (let present = filter (\<lambda>(category, w). category_present df (rows df ! i) category)
                      (weights cfg);
          scored = calculate_category_scores df
      in sum_list (map (\<lambda>(category, w).
                          w * num0 (cell_of (rows scored ! i) (score_col category))) present)
         / sum_list (map snd present))"

definition composite_score_at :: "error + dataframe \<Rightarrow> nat \<Rightarrow> cell" where
  "composite_score_at res i =
     (case res of Inl e \<Rightarrow> NaN | Inr out \<Rightarrow> cell_of (rows out ! i) ''composite_score'')"

section \<open>Filter engine (scoring/filters.py)\<close>

text \<open>
  An elementwise comparison gives one entry of a boolean mask. On a NaN the comparison is
  False; on the NA of a nullable column it is NA (\<open>None\<close>). A boolean True is the number 1.
\<close>

fun cell_ge :: "cell \<Rightarrow> real \<Rightarrow> bool option" where
  "cell_ge (Num x) t = Some (t \<le> x)"
| "cell_ge NaN t = Some False"
| "cell_ge NA t = None"

fun cell_le :: "cell \<Rightarrow> real \<Rightarrow> bool option" where
  "cell_le (Num x) t = Some (x \<le> t)"
| "cell_le NaN t = Some False"
| "cell_le NA t = None"

fun cell_eq :: "cell \<Rightarrow> real \<Rightarrow> bool option" where
  "cell_eq (Num x) t = Some (x = t)"
| "cell_eq NaN t = Some False"
| "cell_eq NA t = None"


text \<open>\<open>~mask\<close> keeps NA.\<close>

definition mask_not :: "bool option \<Rightarrow> bool option" where
  "mask_not m = map_option Not m"

record filter_results =
  original_count :: nat
  filters_applied :: "string list"
  animals_removed :: "(string \<times> nat) list"
  final_count :: nat
  total_removed :: nat

text \<open>
  One filter block of \<open>apply_hard_filters\<close>, entered when the block's condition
  \<open>applicable\<close> holds. The mask is taken on the input \<open>df\<close>;
  \<open>removed_count = (~mask).sum()\<close> counts its True entries and skips NA; when it is
  positive the surviving table is indexed by the mask, where NA selects nothing.
\<close>

definition hard_filter_block ::
  "bool \<Rightarrow> string \<Rightarrow> (row \<Rightarrow> bool option) \<Rightarrow> dataframe
     \<Rightarrow> dataframe \<times> filter_results \<Rightarrow> dataframe \<times> filter_results" where
  "hard_filter_block applicable name row_mask df st =
     (if applicable
      then let (filtered_df, res) = st;
               removed_count = length (filter (\<lambda>r. mask_not (row_mask r) = Some True) (rows df))
           in if removed_count > 0
              then (filtered_df\<lparr>rows := filter (\<lambda>r. row_mask r = Some True) (rows filtered_df)\<rparr>,
                    res\<lparr>filters_applied := filters_applied res @ [name],
                        animals_removed := animals_removed res @ [(name, removed_count)]\<rparr>)
              else st
      else st)"

definition apply_hard_filters :: "real AnalysisConfig \<Rightarrow> dataframe \<Rightarrow> dataframe \<times> filter_results" where
  "apply_hard_filters cfg df =
     (let s0 = (df, \<lparr>original_count = length (rows df), filters_applied = [],
                     animals_removed = [], final_count = 0, total_removed = 0\<rparr>);
          s1 = hard_filter_block (''wt_birth'' \<in> set (columns df)) ''min_birth_weight''
                 (\<lambda>r. cell_ge (cell_of r ''wt_birth'') (min_birth_weight cfg)) df s0;
          s2 = hard_filter_block (''footrot_score'' \<in> set (columns df)) ''max_footrot_score''
                 (\<lambda>r. cell_le (cell_of r ''footrot_score'') (real_of_int (max_footrot_score cfg)))
                 df s1;
          s3 = hard_filter_block (''dag_score'' \<in> set (columns df)) ''max_dag_score''
                 (\<lambda>r. cell_le (cell_of r ''dag_score'') (real_of_int (max_dag_score cfg))) df s2;
          s4 = hard_filter_block (''wt_wean'' \<in> set (columns df)) ''min_weaning_weight''
                 (\<lambda>r. cell_ge (cell_of r ''wt_wean'') (min_weaning_weight cfg)) df s3;
          s5 = hard_filter_block (''micron'' \<in> set (columns df)) ''max_micron''
                 (\<lambda>r. cell_le (cell_of r ''micron'') (max_micron cfg)) df s4;
          s6 = hard_filter_block (bse_pass_required cfg \<and> ''bse_pass'' \<in> set (columns df))
                 ''bse_pass_required''
                 (\<lambda>r. cell_eq (cell_of r ''bse_pass'') 1) df s5;
          (filtered_df, res) = s6
      in (filtered_df,
          res\<lparr>final_count := length (rows filtered_df),
              total_removed := length (rows df) - length (rows filtered_df)\<rparr>))"

text \<open>
  The six blocks as a table: the condition under which a block is entered, the name it
  reports and its mask.
\<close>

definition hard_filter_blocks ::
  "real AnalysisConfig \<Rightarrow> dataframe \<Rightarrow> (bool \<times> string \<times> (row \<Rightarrow> bool option)) list" where
  "hard_filter_blocks cfg df =
     [(''wt_birth'' \<in> set (columns df), ''min_birth_weight'',
         \<lambda>r. cell_ge (cell_of r ''wt_birth'') (min_birth_weight cfg)),
      (''footrot_score'' \<in> set (columns df), ''max_footrot_score'',
         \<lambda>r. cell_le (cell_of r ''footrot_score'') (real_of_int (max_footrot_score cfg))),
      (''dag_score'' \<in> set (columns df), ''max_dag_score'',
         \<lambda>r. cell_le (cell_of r ''dag_score'') (real_of_int (max_dag_score cfg))),
      (''wt_wean'' \<in> set (columns df), ''min_weaning_weight'',
         \<lambda>r. cell_ge (cell_of r ''wt_wean'') (min_weaning_weight cfg)),
      (''micron'' \<in> set (columns df), ''max_micron'',
         \<lambda>r. cell_le (cell_of r ''micron'') (max_micron cfg)),
      (bse_pass_required cfg \<and> ''bse_pass'' \<in> set (columns df), ''bse_pass_required'',
         \<lambda>r. cell_eq (cell_of r ''bse_pass'') 1)]"

definition run_blocks ::
  "dataframe \<Rightarrow> (bool \<times> string \<times> (row \<Rightarrow> bool option)) list
     \<Rightarrow> dataframe \<times> filter_results \<Rightarrow> dataframe \<times> filter_results" where
  "run_blocks df bs st =
     foldl (\<lambda>s (applicable, name, row_mask). hard_filter_block applicable name row_mask df s) st bs"

text \<open>
  The masks of the hard filters whose trait column is in the table (for the breeding
  soundness filter: when the configuration also requires it), in the order of the blocks.
\<close>

definition hard_filter_masks :: "real AnalysisConfig \<Rightarrow> dataframe \<Rightarrow> (row \<Rightarrow> bool option) list" where
  "hard_filter_masks cfg df = map (\<lambda>b. snd (snd b)) (filter fst (hard_filter_blocks cfg df))"

subsection \<open>Cull candidates\<close>












section \<open>Explanations (scoring/ranker.py)\<close>

record explanation =
  strengths :: "string list"
  weaknesses :: "string list"
  recommendations :: "string list"

text \<open>\<open>row.get(key, default)\<close>.\<close>

definition row_get :: "row \<Rightarrow> string \<Rightarrow> cell \<Rightarrow> cell" where
  "row_get r k d = (case r k of Some v \<Rightarrow> v | None \<Rightarrow> d)"

text \<open>
  The truth value of a comparison of one entry, as an \<open>if\<close> takes it: False on NaN, and
  a TypeError on NA, whose truth value is ambiguous.
\<close>

fun truth_gt :: "cell \<Rightarrow> real \<Rightarrow> error + bool" where
  "truth_gt (Num x) t = Inr (t < x)"
| "truth_gt NaN t = Inr False"
| "truth_gt NA t = Inl (TypeError ''boolean value of NA is ambiguous'')"

fun truth_lt :: "cell \<Rightarrow> real \<Rightarrow> error + bool" where
  "truth_lt (Num x) t = Inr (x < t)"
| "truth_lt NaN t = Inr False"
| "truth_lt NA t = Inl (TypeError ''boolean value of NA is ambiguous'')"

definition strength_note :: "string \<Rightarrow> string" where
  "strength_note category = ''Strong '' @ category @ '' performance''"

definition weakness_note :: "string \<Rightarrow> string" where
  "weakness_note category = ''Poor '' @ category @ '' performance''"

text \<open>The loop over the component scores: \<open>if score > 0.7 ... elif score < 0.3 ...\<close>.\<close>

fun note_categories :: "explanation \<Rightarrow> (string \<times> cell) list \<Rightarrow> error + explanation" where
  "note_categories e [] = Inr e"
| "note_categories e ((category, score) # cs) =
     (case truth_gt score (7/10) of
        Inl err \<Rightarrow> Inl err
      | Inr True \<Rightarrow>
          note_categories (e\<lparr>strengths := strengths e @ [strength_note category]\<rparr>) cs
      | Inr False \<Rightarrow>
          (case truth_lt score (3/10) of
             Inl err \<Rightarrow> Inl err
           | Inr True \<Rightarrow>
               note_categories (e\<lparr>weaknesses := weaknesses e @ [weakness_note category]\<rparr>) cs
           | Inr False \<Rightarrow> note_categories e cs))"

text \<open>\<open>if key in row and row[key] < 0.3: recommendations.append(text)\<close>.\<close>

definition recommend :: "row \<Rightarrow> string \<Rightarrow> string \<Rightarrow> explanation \<Rightarrow> error + explanation" where
  "recommend r key txt e =
     (case r key of
        None \<Rightarrow> Inr e
      | Some v \<Rightarrow>
          (case truth_lt v (3/10) of
             Inl err \<Rightarrow> Inl err
           | Inr b \<Rightarrow> Inr (if b then e\<lparr>recommendations := recommendations e @ [txt]\<rparr> else e)))"

definition component_scores :: "row \<Rightarrow> (string \<times> cell) list" where
  "component_scores r = map (\<lambda>category. (category, row_get r (score_col category) (Num 0)))
                          categories"

definition generate_explanation :: "row \<Rightarrow> error + explanation" where
  "generate_explanation r =
     (case note_categories \<lparr>strengths = [], weaknesses = [], recommendations = []\<rparr>
             (component_scores r) of
        Inl err \<Rightarrow> Inl err
      | Inr e1 \<Rightarrow>
          (case recommend r ''growth_score'' ''Focus on improving growth performance'' e1 of
             Inl err \<Rightarrow> Inl err
           | Inr e2 \<Rightarrow>
               (case recommend r ''health_score'' ''Address health issues'' e2 of
                  Inl err \<Rightarrow> Inl err
                | Inr e3 \<Rightarrow>
                    recommend r ''reproduction_score'' ''Improve reproductive performance'' e3)))"

text \<open>A score above 0.7, and a score below 0.3.\<close>

definition is_high :: "cell \<Rightarrow> bool" where
  "is_high s \<longleftrightarrow> (\<exists>x. s = Num x \<and> 7/10 < x)"

definition is_low :: "cell \<Rightarrow> bool" where
  "is_low s \<longleftrightarrow> (\<exists>x. s = Num x \<and> x < 3/10)"

section \<open>Contemporary grouping (processing/grouping.py)\<close>

text \<open>
  The columns this stage reads, by row: the identifier, the management group (\<open>None\<close>
  when missing) and the birth date as a day number (\<open>None\<close> for NaT, which is what
  parsing makes of a missing or unparsable date). \<open>hcolumns\<close> are the labels of the
  columns the table has. The birth dates come in one of two forms: a datetime64 column of
  timestamps, as the cleaner leaves it, or an object column of \<open>datetime.date\<close> values,
  as the loader alone leaves it.
\<close>

record animal =
  animal_id :: string
  mgmt_group :: "string option"
  birth_date :: "int option"

datatype date_dtype = Datetime64 | DateObject

record herd =
  hcolumns :: "string list"
  birth_date_dtype :: date_dtype
  animals :: "animal list"

text \<open>\<open>Series.unique()\<close>: the distinct values in order of first appearance.\<close>

definition unique :: "'a list \<Rightarrow> 'a list" where
  "unique xs = rev (remdups (rev xs))"

text \<open>\<open>sort_values('birth_date')\<close>: ascending, NaT last.\<close>

definition date_key :: "animal \<Rightarrow> int" where
  "date_key a = (case birth_date a of Some d \<Rightarrow> d | None \<Rightarrow> 0)"

definition sort_by_birth_date :: "animal list \<Rightarrow> animal list" where
  "sort_by_birth_date g =
     sort_key date_key (filter (\<lambda>a. birth_date a \<noteq> None) g)
     @ filter (\<lambda>a. birth_date a = None) g"

text \<open>
  \<open>(birth_date - current_group_start).days <= window_days\<close>. Between timestamps a
  difference with NaT is NaT, its \<open>days\<close> is NaN, and the comparison is False. Between
  NaT and a \<open>datetime.date\<close> the subtraction is not defined and raises a TypeError;
  NaT less NaT is NaT.
\<close>

definition within_window ::
  "date_dtype \<Rightarrow> int \<Rightarrow> int option \<Rightarrow> int option \<Rightarrow> error + bool" where
  "within_window dtype window_days b start =
     (case (b, start) of
        (Some d, Some d0) \<Rightarrow> Inr (d - d0 \<le> window_days)
      | (None, None) \<Rightarrow> Inr False
      | _ \<Rightarrow>
          (case dtype of
             Datetime64 \<Rightarrow> Inr False
           | DateObject \<Rightarrow> Inl (TypeError ''unsupported operand type(s) for -'')))"

text \<open>\<open>str(n)\<close> of a counter.\<close>

definition digit_char :: "nat \<Rightarrow> char" where
  "digit_char n = ''0123456789'' ! n"

fun str_nat :: "nat \<Rightarrow> string" where
  "str_nat n = (if n < 10 then [digit_char n] else str_nat (n div 10) @ [digit_char (n mod 10)])"

declare str_nat.simps [simp del]

definition mgmt_label :: "animal \<Rightarrow> string" where
  "mgmt_label a = (case mgmt_group a of Some g \<Rightarrow> g | None \<Rightarrow> ''nan'')"

definition group_name :: "animal \<Rightarrow> nat \<Rightarrow> string" where
  "group_name a current_group = mgmt_label a @ ''_G'' @ str_nat current_group"

text \<open>\<open>d[k] = v\<close> on a dict kept as the list of its items.\<close>

definition dict_set :: "'k \<Rightarrow> 'v \<Rightarrow> ('k \<times> 'v) list \<Rightarrow> ('k \<times> 'v) list" where
  "dict_set k v d =
     (if k \<in> fst ` set d then map (\<lambda>(k', v'). if k' = k then (k', v) else (k', v')) d
      else d @ [(k, v)])"

text \<open>
  The loop of \<open>_group_by_birth_window\<close> over the sorted rows. The state is the dict, the
  group counter and the start of the current window (\<open>None\<close> before the first row).
\<close>

fun window_loop ::
  "date_dtype \<Rightarrow> int \<Rightarrow> animal list \<Rightarrow> (string \<times> string) list \<times> nat \<times> int option option
     \<Rightarrow> error + (string \<times> string) list" where
  "window_loop dtype window_days [] (contemporary_groups, current_group, current_group_start) =
     Inr contemporary_groups"
| "window_loop dtype window_days (a # as)
     (contemporary_groups, current_group, current_group_start) =
     (case current_group_start of
        None \<Rightarrow>
          window_loop dtype window_days as
            (dict_set (animal_id a) (group_name a current_group) contemporary_groups,
             current_group, Some (birth_date a))
      | Some start \<Rightarrow>
          (case within_window dtype window_days (birth_date a) start of
             Inl err \<Rightarrow> Inl err
           | Inr True \<Rightarrow>
               window_loop dtype window_days as
                 (dict_set (animal_id a) (group_name a current_group) contemporary_groups,
                  current_group, Some start)
           | Inr False \<Rightarrow>
               window_loop dtype window_days as
                 (dict_set (animal_id a) (group_name a (current_group + 1))
                    contemporary_groups,
                  current_group + 1, Some (birth_date a))))"

text \<open>
  \<open>_group_by_birth_window\<close>. Reading \<open>row['animal_id']\<close> raises a KeyError when the
  table has no such column.
\<close>

definition group_by_birth_window ::
  "date_dtype \<Rightarrow> int \<Rightarrow> string list \<Rightarrow> animal list \<Rightarrow> error + (string \<times> string) list" where
  "group_by_birth_window dtype window_days cols group_df =
     (if group_df = [] \<or> ''birth_date'' \<notin> set cols then Inr []
      else if ''animal_id'' \<notin> set cols then Inl (KeyError ''animal_id'')
      else window_loop dtype window_days (sort_by_birth_date group_df) ([], 1, None))"

text \<open>
  \<open>df.loc[df['animal_id'] == animal_id, 'contemporary_group'] = cont_group\<close> for every
  item of the dict, on the new column.
\<close>

fun assign_groups ::
  "animal list \<Rightarrow> (string \<times> string) list \<Rightarrow> string option list \<Rightarrow> string option list" where
  "assign_groups as [] col = col"
| "assign_groups as ((aid, cont_group) # items) col =
     assign_groups as items
       (map2 (\<lambda>a c. if animal_id a = aid then Some cont_group else c) as col)"

text \<open>The loop of \<open>create_contemporary_groups\<close> over the distinct management groups.\<close>

fun groups_loop ::
  "int \<Rightarrow> herd \<Rightarrow> string option list \<Rightarrow> string option list \<Rightarrow> error + string option list" where
  "groups_loop window_days h [] col = Inr col"
| "groups_loop window_days h (mg # mgs) col =
     (let group_df = (case mg of
                        None \<Rightarrow> []
                      | Some g \<Rightarrow> filter (\<lambda>a. mgmt_group a = Some g) (animals h))
      in if ''birth_date'' \<notin> set (hcolumns h) then groups_loop window_days h mgs col
         else case group_by_birth_window (birth_date_dtype h) window_days (hcolumns h)
                     group_df of
                Inl err \<Rightarrow> Inl err
              | Inr contemporary_groups \<Rightarrow>
                  groups_loop window_days h mgs
                    (assign_groups (animals h) contemporary_groups col))"

text \<open>
  \<open>create_contemporary_groups\<close>, for a grouping with the given \<open>window_days\<close>. The
  result is the new column \<open>contemporary_group\<close> of the returned table (\<open>None\<close>: no
  cohort); the other columns are returned as they came.
\<close>

definition create_contemporary_groups :: "int \<Rightarrow> herd \<Rightarrow> error + string option list" where
  "create_contemporary_groups window_days h =
     (if ''mgmt_group'' \<notin> set (hcolumns h) then Inl (KeyError ''mgmt_group'')
      else groups_loop window_days h (unique (map mgmt_group (animals h)))
             (replicate (length (animals h)) None))"

section \<open>Sample tables\<close>

text \<open>One animal with a growth trait and no column of any other category.\<close>

definition growth_only :: dataframe where
  "growth_only = \<lparr> columns = [''adg_100_200d''], rows = [[''adg_100_200d'' \<mapsto> Num 1]] \<rparr>"

text \<open>Three animals whose growth score is already computed; all the weight is on growth.\<close>

definition three_scored :: dataframe where
  "three_scored = \<lparr> columns = [''growth_score''],
                     rows = [[''growth_score'' \<mapsto> Num (9/10)],
                             [''growth_score'' \<mapsto> Num (9/10)],
                             [''growth_score'' \<mapsto> Num (8/10)]] \<rparr>"

definition growth_config :: "real AnalysisConfig" where
  "growth_config = default_config\<lparr>weights := [(''growth'', 1)]\<rparr>"

text \<open>Two animals with a health score from the metrics layer and raw footrot scores.\<close>

definition health_scored :: dataframe where
  "health_scored = \<lparr> columns = [''footrot_score'', ''health_score''],
                      rows = [[''footrot_score'' \<mapsto> Num 1, ''health_score'' \<mapsto> Num 4],
                              [''footrot_score'' \<mapsto> Num 3, ''health_score'' \<mapsto> Num 2]] \<rparr>"

text \<open>Two animals, the second with no birth weight recorded.\<close>

definition birth_weights :: dataframe where
  "birth_weights = \<lparr> columns = [''wt_birth''],
                      rows = [[''wt_birth'' \<mapsto> Num 3], [''wt_birth'' \<mapsto> NaN]] \<rparr>"

text \<open>Two animals with weaning weights 25 and 15 and no other trait column.\<close>

definition weaning_weights :: dataframe where
  "weaning_weights = \<lparr> columns = [''wt_wean''],
                      rows = [[''wt_wean'' \<mapsto> Num 25], [''wt_wean'' \<mapsto> Num 15]] \<rparr>"


text \<open>A row whose growth score is exactly 0.7, and a row with a high growth score and a
  low health score; neither has another score.\<close>

definition growth_at_threshold :: row where
  "growth_at_threshold = [''growth_score'' \<mapsto> Num (7/10)]"

text \<open>A row whose temperament score is the NA of a nullable column.\<close>

definition temperament_unknown :: row where
  "temperament_unknown = [''growth_score'' \<mapsto> Num (8/10), ''temperament_score'' \<mapsto> NA]"

definition strong_growth_poor_health :: row where
  "strong_growth_poor_health = [''growth_score'' \<mapsto> Num (8/10), ''health_score'' \<mapsto> Num (2/10)]"

text \<open>
  A herd of one management group in which the second animal has no birth date, with the
  dates as timestamps and as date objects, and a herd in which the second animal has no
  management group.
\<close>

definition undated_herd :: herd where
  "undated_herd = \<lparr> hcolumns = [''animal_id'', ''mgmt_group'', ''birth_date''],
     birth_date_dtype = Datetime64,
     animals = [\<lparr>animal_id = ''A1'', mgmt_group = Some ''MOB1'', birth_date = Some 100\<rparr>,
                \<lparr>animal_id = ''A2'', mgmt_group = Some ''MOB1'', birth_date = None\<rparr>] \<rparr>"

definition undated_herd_of_date_objects :: herd where
  "undated_herd_of_date_objects = undated_herd\<lparr>birth_date_dtype := DateObject\<rparr>"

definition ungrouped_herd :: herd where
  "ungrouped_herd = \<lparr> hcolumns = [''animal_id'', ''mgmt_group'', ''birth_date''],
     birth_date_dtype = Datetime64,
     animals = [\<lparr>animal_id = ''A1'', mgmt_group = Some ''MOB1'', birth_date = Some 100\<rparr>,
                \<lparr>animal_id = ''A2'', mgmt_group = None, birth_date = Some 105\<rparr>,
                \<lparr>animal_id = ''A3'', mgmt_group = Some ''MOB1'', birth_date = Some 140\<rparr>] \<rparr>"

text \<open>
  The double nearest to 0.1, and for a column of three such values the mean, the deviation
  and the z-score that double precision gives.
\<close>

definition tenth :: real where
  "tenth = 7205759403792794 / 2 ^ 56"

definition mean_tenths :: real where
  "mean_tenths = 7205759403792795 / 2 ^ 56"

definition std_tenths :: real where
  "std_tenths = 5515760546423086 / 2 ^ 108"

definition z_tenths :: real where
  "z_tenths = - (7354347395230783 / 2 ^ 53)"

section \<open>Properties of the configuration\<close>

lemma sum_of_finite_weights:
  "foldl py_add (Float a) (map (\<lambda>p. Float (snd p)) v) = Float (a + sum_list (map snd v))"
  by (induction v arbitrary: a) (simp_all add: add.assoc)

text \<open>
  What the validation decides: construction fails exactly when a weights dict is passed
  whose sum is off the tolerance as the comparison sees it, and a constructed
  configuration holds the dict it was given.
\<close>

lemma weights_validation_cases:
  "(AnalysisConfig_init kw = Inl (ValueError ''Weights must sum to 1.0'')
      \<longleftrightarrow> (\<exists>v. kw_weights kw = Some v \<and> off_tolerance (dict_values_sum v)))
   \<and> (\<forall>c. AnalysisConfig_init kw = Inr c \<longrightarrow>
          (\<forall>v. kw_weights kw = Some v \<longrightarrow> weights c = v \<and> \<not> off_tolerance (dict_values_sum v)))"
  by (cases "kw_weights kw")
     (auto simp: AnalysisConfig_init_def validate_weights_sum_def split: if_splits)

text \<open>For finite weights this is the tolerance on their sum.\<close>

lemma finite_weights_validation:
  "validate_weights_sum (map (\<lambda>p. (fst p, Float (snd p))) v)
   = (if \<bar>sum_list (map snd v) - 1\<bar> > 1/1000
      then Inl (ValueError ''Weights must sum to 1.0'')
      else Inr (map (\<lambda>p. (fst p, Float (snd p))) v))"
  using sum_of_finite_weights[of 0 v]
  by (simp add: validate_weights_sum_def dict_values_sum_def comp_def)

text \<open>
  C5. The claim fails on the code for a weights dict with a NaN value: the sum of the
  weights is NaN, the comparison \<open>abs(sum - 1.0) > 0.001\<close> is False on it, the validator
  returns the dict and the configuration is constructed, with weights that do not sum to
  1.0 within 0.001.
\<close>

theorem C5_nan_weight_accepted:
  "dict_values_sum [(''growth'', FloatNaN), (''wool'', Float (2/10))] = FloatNaN
   \<and> (\<exists>c. AnalysisConfig_init
             (no_kwargs\<lparr>kw_weights := Some [(''growth'', FloatNaN), (''wool'', Float (2/10))]\<rparr>)
           = Inr c
         \<and> weights c = [(''growth'', FloatNaN), (''wool'', Float (2/10))])"
  by (simp add: no_kwargs_def AnalysisConfig_init_def validate_weights_sum_def
        dict_values_sum_def)

text \<open>The dict of the repository's own test, which sums to 0.8, is refused.\<close>

lemma short_weights_refused:
  "AnalysisConfig_init
     (no_kwargs\<lparr>kw_weights := Some [(''growth'', Float (5/10)), (''wool'', Float (3/10))]\<rparr>)
   = Inl (ValueError ''Weights must sum to 1.0'')"
  by (simp add: no_kwargs_def AnalysisConfig_init_def validate_weights_sum_def
        dict_values_sum_def)

section \<open>Properties of the standardizer\<close>

lemma dropna_filter_le:
  "length (filter (\<lambda>x. x \<le> v) (dropna values)) = count_le values v"
  unfolding count_le_def
  by (induction "values" rule: dropna.induct) auto

lemma dropna_length: "length (dropna values) = count_valid values"
  unfolding count_valid_def
  by (induction "values" rule: dropna.induct) auto

lemma count_le_mono: "v \<le> w \<Longrightarrow> count_le values v \<le> count_le values w"
  unfolding count_le_def
  by (induction "values") (auto split: cell.splits)

lemma count_le_valid: "count_le values v \<le> count_valid values"
  unfolding count_le_def count_valid_def
  by (induction "values") (auto split: cell.splits)

lemma percentile_nth:
  assumes "i < length values" "values ! i = Num v" "valid_values \<noteq> []"
  shows "percentile_standardize values valid_values ! i
         = Num (real (length (filter (\<lambda>x. x \<le> v) valid_values))
                 / real (length valid_values) * 100)"
  using assms by (simp add: percentile_standardize_def)

lemma standardize_trait_percentile:
  assumes "2 \<le> length (dropna values)"
  shows "standardize_trait ''percentile'' values
         = Inr (percentile_standardize values (dropna values))"
  using assms by (simp add: standardize_trait_def Let_def)

lemma percentile_of_bounds:
  assumes "0 < count_valid values"
  shows "0 \<le> percentile_of values v \<and> percentile_of values v \<le> 100"
proof -
  have "real (count_le values v) \<le> real (count_valid values)"
    using count_le_valid by simp
  then have "real (count_le values v) / real (count_valid values) \<le> 1"
    using assms by (simp add: divide_le_eq_1)
  then have "real (count_le values v) / real (count_valid values) * 100 \<le> 1 * 100"
    by (intro mult_right_mono) simp_all
  then show ?thesis unfolding percentile_of_def by simp
qed

lemma percentile_of_mono:
  assumes "v \<le> w"
  shows "percentile_of values v \<le> percentile_of values w"
  unfolding percentile_of_def
  using count_le_mono[OF assms, of "values"]
  by (simp add: divide_right_mono)

text \<open>
  C3. In a cohort with at least 2 non-missing values of a trait, percentile
  standardization returns, for every animal with a value \<open>v\<close>, the count of non-missing
  cohort values at most \<open>v\<close> over the count of non-missing cohort values, times 100. This
  value lies in [0, 100], equal raw values get equal percentiles, and a larger raw value
  never gets a smaller percentile.
\<close>

theorem C3_percentile_standardize:
  assumes "2 \<le> length (dropna values)"
  shows "\<exists>res. standardize_trait ''percentile'' values = Inr res
           \<and> length res = length values
           \<and> (\<forall>i<length values. \<forall>v. values ! i = Num v \<longrightarrow>
                 res ! i = Num (percentile_of values v)
                 \<and> 0 \<le> percentile_of values v \<and> percentile_of values v \<le> 100)
           \<and> (\<forall>i<length values. \<forall>j<length values. \<forall>v w.
                 values ! i = Num v \<and> values ! j = Num w \<and> v = w \<longrightarrow> res ! i = res ! j)
           \<and> (\<forall>i<length values. \<forall>j<length values. \<forall>v w.
                 values ! i = Num v \<and> values ! j = Num w \<and> v \<le> w \<longrightarrow>
                 num0 (res ! i) \<le> num0 (res ! j))"
proof -
  let ?res = "percentile_standardize values (dropna values)"
  have ne: "dropna values \<noteq> []" using assms by auto
  have pos: "0 < count_valid values" using assms by (simp add: dropna_length)
  have nth: "?res ! i = Num (percentile_of values v)"
    if "i < length values" "values ! i = Num v" for i v
    using percentile_nth[OF that ne]
    by (simp add: percentile_of_def dropna_filter_le dropna_length)
  have len: "length ?res = length values" by (simp add: percentile_standardize_def)
  show ?thesis
    using standardize_trait_percentile[OF assms] len nth percentile_of_bounds[OF pos]
      percentile_of_mono
    by (intro exI[of _ ?res]) simp
qed

theorem C3_percentile_standardize_witness:
  "2 \<le> length (dropna [Num 10, NaN, Num 30, Num 10, Num 20]) \<and>
   standardize_trait ''percentile'' [Num 10, NaN, Num 30, Num 10, Num 20]
     = Inr [Num 50, NaN, Num 100, Num 50, Num 75]"
  using C3_percentile_standardize[of "[Num 10, NaN, Num 30, Num 10, Num 20]"]
  by (simp add: standardize_trait_def percentile_standardize_def)

subsection \<open>Rounding to a double\<close>

lemma scale52_in_range:
  "2 ^ 52 \<le> m \<Longrightarrow> m < 2 ^ 53 \<Longrightarrow> scale52 n m e = (m, e)"
  by (cases n) simp_all

lemma scale52_up:
  "m * 2 ^ k < 2 ^ 53 \<Longrightarrow> 2 ^ 52 \<le> m * 2 ^ k \<Longrightarrow> 0 < m \<Longrightarrow> k \<le> n
   \<Longrightarrow> scale52 n m e = (m * 2 ^ k, e - int k)"
proof (induction k arbitrary: n m e)
  case 0
  then show ?case by (simp add: scale52_in_range)
next
  case (Suc k)
  then obtain n' where n: "n = Suc n'" by (cases n) auto
  have "m * 2 \<le> m * 2 ^ Suc k"
    using Suc.prems(3) by (simp add: self_le_power)
  then have small: "m < 2 ^ 52" using Suc.prems(1) by simp
  have "scale52 n' (m * 2) (e - 1) = (m * 2 * 2 ^ k, e - 1 - int k)"
    using Suc.prems n by (intro Suc.IH) (simp_all add: mult.assoc)
  then show ?case using small n by (simp add: mult.assoc)
qed

text \<open>A magnitude below \<open>2^53\<close> is rounded at the scale that brings it into range.\<close>

lemma fl_up:
  assumes "x \<noteq> 0" "\<bar>x\<bar> * 2 ^ k < 2 ^ 53" "2 ^ 52 \<le> \<bar>x\<bar> * 2 ^ k" "k \<le> 1100"
  shows "fl x = sgn x * real_of_int (round_half_even (\<bar>x\<bar> * 2 ^ k)) / 2 ^ k"
proof -
  have "scale52 1100 \<bar>x\<bar> 0 = (\<bar>x\<bar> * 2 ^ k, 0 - int k)"
    using assms by (intro scale52_up) simp_all
  then show ?thesis using assms(1)
    by (cases "k = 0") (simp_all add: fl_def pow2_def)
qed

text \<open>A number that is an integer at that scale is a double: rounding keeps it.\<close>

lemma fl_exact:
  assumes "x \<noteq> 0" "\<bar>x\<bar> * 2 ^ k < 2 ^ 53" "2 ^ 52 \<le> \<bar>x\<bar> * 2 ^ k" "k \<le> 1100"
    and "real_of_int n = \<bar>x\<bar> * 2 ^ k"
  shows "fl x = x"
proof -
  have "round_half_even (\<bar>x\<bar> * 2 ^ k) = n"
    unfolding assms(5)[symmetric] by (simp add: round_half_even_def)
  then have "fl x = sgn x * (\<bar>x\<bar> * 2 ^ k) / 2 ^ k"
    using fl_up[OF assms(1-4)] assms(5) by simp
  also have "\<dots> = x" by (simp add: sgn_mult_abs mult.assoc[symmetric])
  finally show ?thesis .
qed

lemma round_half_even_below_half:
  assumes "real_of_int n \<le> x" "x < real_of_int n + 1/2"
  shows "round_half_even x = n"
proof -
  have f: "\<lfloor>x\<rfloor> = n" using assms by (intro floor_unique) simp_all
  have "x - real_of_int n < 1/2" using assms(2) by simp
  then show ?thesis unfolding round_half_even_def Let_def f by simp
qed

lemma tenth_is_double: "fl (1/10) = tenth"
  using fl_up[of "1/10" 56] by (simp add: tenth_def round_half_even_def Let_def)

subsection \<open>The z-score of three equal values 0.1\<close>

lemma sum_tenths: "float_sum [tenth, tenth, tenth] = 1351079888211149 / 2 ^ 52"
proof -
  have a: "fl (0 + tenth) = tenth"
    using fl_exact[of tenth 56 7205759403792794] by (simp add: tenth_def)
  have b: "fl (tenth + tenth) = 2 * tenth"
    using fl_exact[of "2 * tenth" 55 7205759403792794] by (simp add: tenth_def)
  have c: "fl (2 * tenth + tenth) = 1351079888211149 / 2 ^ 52"
    using fl_up[of "2 * tenth + tenth" 54] by (simp add: tenth_def round_half_even_def Let_def)
  show ?thesis
    unfolding float_sum_def by (simp only: foldl.simps a b c)
qed

lemma avg_tenths:
  "fl (float_sum [tenth, tenth, tenth] / real (length [tenth, tenth, tenth])) = mean_tenths"
  unfolding sum_tenths
  using fl_up[of "1351079888211149 / 2 ^ 52 / 3" 56]
  by (simp add: mean_tenths_def round_half_even_def Let_def)

lemma mean_tenths_value: "float_mean [tenth, tenth, tenth] = Num mean_tenths"
  using avg_tenths by (simp add: float_mean_def)

lemma sq_dev: "fl ((fl (mean_tenths - tenth))\<^sup>2) = 1 / 2 ^ 112"
proof -
  have d: "mean_tenths - tenth = 1 / 2 ^ 56" by (simp add: mean_tenths_def tenth_def)
  have a: "fl (1 / 2 ^ 56) = 1 / 2 ^ 56"
    using fl_exact[of "1 / 2 ^ 56" 108 "2 ^ 52"] by simp
  have s: "(1 / 2 ^ 56 :: real)\<^sup>2 = 1 / 2 ^ 112" by (simp add: power_divide)
  have b: "fl (1 / 2 ^ 112) = 1 / 2 ^ 112"
    using fl_exact[of "1 / 2 ^ 112" 164 "2 ^ 52"] by simp
  show ?thesis by (simp only: d a s b)
qed

lemma var_tenths: "float_var [tenth, tenth, tenth] = 3 / 2 ^ 113"
proof -
  have a: "fl (0 + 1 / 2 ^ 112) = 1 / 2 ^ 112"
    using fl_exact[of "1 / 2 ^ 112" 164 "2 ^ 52"] by simp
  have b: "fl (1 / 2 ^ 112 + 1 / 2 ^ 112) = 1 / 2 ^ 111"
    using fl_exact[of "1 / 2 ^ 111" 163 "2 ^ 52"] by simp
  have c: "fl (1 / 2 ^ 111 + 1 / 2 ^ 112) = 3 / 2 ^ 112"
    using fl_exact[of "3 / 2 ^ 112" 163 "3 * 2 ^ 51"] by simp
  have s: "float_sum [1 / 2 ^ 112, 1 / 2 ^ 112, 1 / 2 ^ 112] = 3 / 2 ^ 112"
    unfolding float_sum_def by (simp only: foldl.simps a b c)
  have e: "fl (3 / 2 ^ 112 / real (length [tenth, tenth, tenth] - 1)) = 3 / 2 ^ 113"
    using fl_exact[of "3 / 2 ^ 113" 164 "3 * 2 ^ 51"] by simp
  show ?thesis
    unfolding float_var_def Let_def avg_tenths list.map sq_dev s e ..
qed

lemma sqrt_scaled: "sqrt (3 / 2 ^ 113) * 2 ^ 108 = sqrt (3 * 2 ^ 103)"
proof -
  have "sqrt (3 / 2 ^ 113) = sqrt (3 * 2 ^ 103) / 2 ^ 108"
    by (rule real_sqrt_unique) (simp_all add: power_divide)
  then show ?thesis by simp
qed

lemma sqrt_bounds:
  "5515760546423086 \<le> sqrt (3 * 2 ^ 103)" "sqrt (3 * 2 ^ 103) < 5515760546423086 + 1/2"
proof -
  show "5515760546423086 \<le> sqrt (3 * 2 ^ 103)"
    by (rule real_le_rsqrt) simp
  show "sqrt (3 * 2 ^ 103) < 5515760546423086 + 1/2"
    by (rule real_less_lsqrt) (simp_all add: power2_eq_square)
qed

lemma round_sqrt: "round_half_even (sqrt (3 * 2 ^ 103)) = 5515760546423086"
  using sqrt_bounds by (intro round_half_even_below_half) simp_all

lemma std_tenths_value: "float_std [tenth, tenth, tenth] = Num std_tenths"
proof -
  have pos: "sqrt (3 / 2 ^ 113) \<noteq> 0" by simp
  have abs: "\<bar>sqrt (3 / 2 ^ 113)\<bar> = sqrt (3 / 2 ^ 113)" by simp
  have "fl (sqrt (3 / 2 ^ 113))
        = sgn (sqrt (3 / 2 ^ 113))
          * real_of_int (round_half_even (\<bar>sqrt (3 / 2 ^ 113)\<bar> * 2 ^ 108)) / 2 ^ 108"
    using sqrt_bounds by (intro fl_up[OF pos]) (simp_all only: abs sqrt_scaled, simp_all)
  then have "fl (sqrt (3 / 2 ^ 113)) = std_tenths"
    by (simp only: abs sqrt_scaled round_sqrt std_tenths_def) simp
  then show ?thesis by (simp add: float_std_def var_tenths)
qed

lemma z_value: "fl (fl (tenth - mean_tenths) / std_tenths) = z_tenths"
proof -
  have d: "tenth - mean_tenths = - (1 / 2 ^ 56)" by (simp add: mean_tenths_def tenth_def)
  have a: "fl (- (1 / 2 ^ 56)) = - (1 / 2 ^ 56)"
    using fl_exact[of "- (1 / 2 ^ 56)" 108 "2 ^ 52"] by simp
  have b: "fl (- (1 / 2 ^ 56) / std_tenths) = z_tenths"
    using fl_up[of "- (1 / 2 ^ 56) / std_tenths" 53]
    by (simp add: std_tenths_def z_tenths_def round_half_even_def Let_def)
  show ?thesis by (simp only: d a b)
qed

lemma zscore_tenths:
  "zscore_standardize [Num tenth, Num tenth, Num tenth] [tenth, tenth, tenth]
     = [Num z_tenths, Num z_tenths, Num z_tenths]"
proof -
  have ne: "Num std_tenths \<noteq> Num 0" by (simp add: std_tenths_def)
  show ?thesis
    unfolding zscore_standardize_def Let_def mean_tenths_value std_tenths_value
    using ne by (simp add: z_value)
qed

text \<open>
  C7. The claim fails on the code: three animals of a cohort have the same trait value
  0.1, but in double precision their sum is 0.30000000000000004 and the mean is one unit
  in the last place above 0.1, so the deviation is about 1.7e-17 and not 0. The branch for
  a zero deviation is not taken, and every animal gets the z-score -0.8164965809277261
  instead of 0.
\<close>

theorem C7_equal_values_nonzero_zscore:
  "float_mean [tenth, tenth, tenth] = Num (7205759403792795 / 2 ^ 56)
   \<and> float_std [tenth, tenth, tenth] = Num (5515760546423086 / 2 ^ 108)
   \<and> standardize_trait ''zscore'' [Num tenth, Num tenth, Num tenth]
       = Inr [Num (- (7354347395230783 / 2 ^ 53)), Num (- (7354347395230783 / 2 ^ 53)),
              Num (- (7354347395230783 / 2 ^ 53))]"
proof -
  have "standardize_trait ''zscore'' [Num tenth, Num tenth, Num tenth]
        = Inr [Num z_tenths, Num z_tenths, Num z_tenths]"
    using zscore_tenths by (simp add: standardize_trait_def Let_def)
  then show ?thesis
    using mean_tenths_value std_tenths_value
    by (simp only: mean_tenths_def std_tenths_def z_tenths_def simp_thms)
qed

text \<open>
  Where the mean of equal values is exact, the deviation is 0 and the branch returns 0
  for every entry, the missing ones too.
\<close>

lemma zscore_equal_twos:
  "standardize_trait ''zscore'' [Num 2, NaN, Num 2] = Inr [Num 0, Num 0, Num 0]"
proof -
  have two: "fl (0 + 2) = 2" using fl_exact[of 2 51 "2 ^ 52"] by simp
  have four: "fl (2 + 2) = 4" using fl_exact[of 4 50 "2 ^ 52"] by simp
  have avg: "fl (4 / real (length [2, 2 :: real])) = 2" using fl_exact[of 2 51 "2 ^ 52"] by simp
  have zero: "fl 0 = 0" by (simp add: fl_def)
  have s: "float_sum [2, 2] = 4"
    unfolding float_sum_def by (simp only: foldl.simps two four)
  have dev: "fl ((fl (2 - 2))\<^sup>2) = 0" by (simp add: zero)
  have v: "float_var [2, 2] = 0"
    unfolding float_var_def Let_def s avg list.map dev
    by (simp add: float_sum_def zero)
  have "float_std [2, 2] = Num 0" by (simp add: float_std_def v zero)
  then show ?thesis
    by (simp add: standardize_trait_def zscore_standardize_def Let_def)
qed

section \<open>Properties of tables\<close>

lemma rows_set_column:
  "length vs = length (rows df) \<Longrightarrow> length (rows (set_column c vs df)) = length (rows df)"
  by (simp add: set_column_def)

lemma columns_set_column: "set (columns (set_column c vs df)) = insert c (set (columns df))"
  by (auto simp: set_column_def)

lemma get_column_set_column_same:
  "length vs = length (rows df) \<Longrightarrow> get_column (set_column c vs df) c = vs"
  by (auto simp: get_column_def set_column_def cell_of_def list_eq_iff_nth_eq)

lemma get_column_set_column_other:
  "length vs = length (rows df) \<Longrightarrow> c' \<noteq> c \<Longrightarrow>
   get_column (set_column c vs df) c' = get_column df c'"
  by (auto simp: get_column_def set_column_def cell_of_def list_eq_iff_nth_eq)

lemma cell_of_nth_get_column:
  "i < length (rows df) \<Longrightarrow> cell_of (rows df ! i) c = get_column df c ! i"
  by (simp add: get_column_def)

lemma not_isna_Num: "\<not> isna c \<Longrightarrow> \<exists>x. c = Num x"
  by (cases c) auto

section \<open>Properties of the ranking engine\<close>

subsection \<open>Ranks\<close>

lemma first_index_desc:
  assumes "sorted_wrt (\<lambda>a b. b \<le> a) ys" "x \<in> set ys"
  shows "first_index ys x = length (filter (\<lambda>y. x < y) ys)"
  using assms
proof (induction ys)
  case Nil
  then show ?case by simp
next
  case (Cons y ys)
  show ?case
  proof (cases "y = x")
    case True
    have "\<forall>z\<in>set ys. \<not> x < z" using Cons.prems(1) True by auto
    then have "filter (\<lambda>z. x < z) ys = []" by (simp add: filter_empty_conv)
    then show ?thesis using True by simp
  next
    case False
    then have mem: "x \<in> set ys" using Cons.prems(2) by auto
    then have "x \<le> y" using Cons.prems(1) by auto
    then have "x < y" using False by simp
    moreover have "sorted_wrt (\<lambda>a b. b \<le> a) ys" using Cons.prems(1) by simp
    ultimately show ?thesis using Cons.IH mem False by simp
  qed
qed

lemma filter_length_rev_sort:
  "length (filter P (rev (sort xs))) = length (filter P (xs::real list))"
  by (simp add: rev_filter[symmetric] filter_sort)

lemma first_index_rev_sort:
  assumes "x \<in> set xs"
  shows "first_index (rev (sort xs)) x = length (filter (\<lambda>y. x < y) xs)"
proof -
  have "sorted_wrt (\<lambda>a b. b \<le> a) (rev (sort xs))"
    by (simp add: sorted_wrt_rev)
  then show ?thesis
    using first_index_desc[of "rev (sort xs)" x] assms filter_length_rev_sort by simp
qed

lemma Num_in_dropna: "Num x \<in> set cs \<Longrightarrow> x \<in> set (dropna cs)"
  by (induction cs rule: dropna.induct) auto

lemma dropna_filter_gt:
  "length (filter (\<lambda>y. x < y) (dropna cs))
   = length (filter (\<lambda>c. case c of Num y \<Rightarrow> x < y | NaN \<Rightarrow> False | NA \<Rightarrow> False) cs)"
  by (induction cs rule: dropna.induct) auto

lemma series_rank_nth:
  assumes "i < length s" "s ! i = Num x"
  shows "series_rank_desc_min s ! i
         = Num (1 + real (length (filter
                   (\<lambda>c. case c of Num y \<Rightarrow> x < y | NaN \<Rightarrow> False | NA \<Rightarrow> False) s)))"
proof -
  have "Num x \<in> set s" using assms by (metis nth_mem)
  then have "x \<in> set (dropna s)" by (rule Num_in_dropna)
  then show ?thesis
    using assms first_index_rev_sort[of x "dropna s"]
    by (simp add: series_rank_desc_min_def dropna_filter_gt)
qed

lemma series_rank_no_na:
  assumes "\<forall>c\<in>set s. \<not> isna c"
  shows "\<not> list_ex isna (series_rank_desc_min s)"
  using assms
  by (auto simp: series_rank_desc_min_def list_ex_iff split: cell.splits)

lemma length_series_rank: "length (series_rank_desc_min s) = length s"
  by (simp add: series_rank_desc_min_def)

subsection \<open>Category scores\<close>

lemma length_category_mean: "length (category_mean df ts) = length (rows df)"
  by (simp add: category_mean_def Let_def)

lemma length_health_mean: "length (health_mean df) = length (rows df)"
  by (simp add: health_mean_def Let_def)

lemma length_temperament_values: "length (temperament_values df) = length (rows df)"
  by (simp add: temperament_values_def)

lemmas score_lengths = length_category_mean length_health_mean length_temperament_values
  rows_set_column

lemma length_rows_category_scores:
  "length (rows (calculate_category_scores df)) = length (rows df)"
  by (simp add: calculate_category_scores_def Let_def score_lengths)

lemma columns_category_scores:
  "set (columns (calculate_category_scores df)) = set (columns df) \<union> set score_columns"
  by (auto simp: calculate_category_scores_def Let_def columns_set_column score_columns_def)

lemma get_column_category_scores:
  assumes "c \<in> set (columns df)"
  shows "get_column (calculate_category_scores df) c = get_column df c"
proof -
  have ne: "c \<noteq> c'" if "c' \<notin> set (columns df)" for c'
    using assms that by auto
  show ?thesis
    by (simp add: calculate_category_scores_def Let_def score_lengths
          get_column_set_column_other ne)
qed

lemma health_score_computed:
  assumes "''health_score'' \<notin> set (columns df)"
  shows "get_column (calculate_category_scores df) ''health_score'' = health_mean df"
  using assms
  by (simp add: calculate_category_scores_def Let_def score_lengths
        get_column_set_column_other get_column_set_column_same)

subsection \<open>Composite score\<close>

lemma pos_sum_list:
  "xs \<noteq> [] \<Longrightarrow> \<forall>x\<in>set xs. (0::real) < x \<Longrightarrow> 0 < sum_list xs"
  by (induction xs) (auto intro: add_pos_nonneg sum_list_nonneg less_imp_le)

lemma weighted_total_pos:
  assumes "filter (\<lambda>(category, w). w > 0) cs \<noteq> []"
  shows "0 < sum_list (map snd (filter (\<lambda>(category, w). (w::real) > 0) cs))"
  using assms by (intro pos_sum_list) auto

lemma calculate_composite_score_eq:
  "calculate_composite_score cfg df = set_column ''composite_score'' (composite_values cfg df) df"
proof -
  let ?cs = "filter (\<lambda>(category, w). score_col category \<in> set (columns df)) (weights cfg)"
  show ?thesis
  proof (cases "filter (\<lambda>(category, w). w > 0) ?cs = []")
    case True
    then show ?thesis
      by (simp add: calculate_composite_score_def composite_values_def Let_def)
  next
    case False
    then have "?cs \<noteq> []" by (metis filter.simps(1))
    then show ?thesis using False weighted_total_pos[OF False]
      by (simp add: calculate_composite_score_def composite_values_def Let_def)
  qed
qed

lemma length_composite_values: "length (composite_values cfg df) = length (rows df)"
  by (simp add: composite_values_def Let_def)

lemma composite_values_num: "\<forall>c\<in>set (composite_values cfg df). \<not> isna c"
  by (auto simp: composite_values_def Let_def)

lemma weighted_categories_eq:
  "filter (\<lambda>(category, w). 0 < w)
     (filter (\<lambda>(category, w). score_col category \<in> set cols) (weights cfg))
   = weighted_categories cfg cols"
  by (auto simp: weighted_categories_def intro: filter_cong)

lemma composite_values_nth:
  assumes "i < length (rows df)"
  shows "composite_values cfg df ! i =
     Num (let wc = weighted_categories cfg (columns df)
          in if wc = [] then 0
             else sum_list (map (\<lambda>(category, w).
                              w * num0 (cell_of (rows df ! i) (score_col category))) wc)
                  / sum_list (map snd wc))"
proof -
  have "(\<lambda>(category, w). num0 (cell_of r (score_col category)) * w)
        = (\<lambda>(category, w). w * num0 (cell_of r (score_col category)))" for r
    by (auto simp: mult.commute)
  then show ?thesis
    unfolding composite_values_def weighted_categories_eq Let_def
    using assms by simp
qed

text \<open>Score calculation never fails: the composite score it ranks has no missing entry.\<close>

lemma calculate_scores_eq:
  "calculate_scores cfg df =
     (let scored = calculate_category_scores df; comp = composite_values cfg scored
      in Inr (set_column ''rank'' (series_rank_desc_min comp)
                (set_column ''composite_score'' comp scored)))"
  using series_rank_no_na[OF composite_values_num, of cfg "calculate_category_scores df"]
  by (simp add: calculate_scores_def calculate_composite_score_eq add_ranking_def Let_def
        columns_set_column get_column_set_column_same length_composite_values)

lemmas eval_scores = calculate_scores_def calculate_category_scores_def
  calculate_composite_score_def add_ranking_def Let_def set_column_def get_column_def
  category_mean_def health_mean_def temperament_values_def growth_traits_def wool_traits_def
  repro_traits_def health_traits_def row_mean_def series_mean_def score_col_def cell_of_def
  series_rank_desc_min_def default_config_def default_weights_def

text \<open>
  C1 (as the code has it). The composite score of every animal is the sum of
  weight times category score over the categories that have a positive weight and a score
  column in the scored table, divided by the sum of those weights (0 when there is no
  such category); a missing category score counts as 0 in the sum. After category scoring
  the table has all five score columns, so each of the five categories with a positive
  weight is in the denominator, whatever data the animal has.
\<close>

theorem C1_composite_over_table_categories:
  assumes "i < length (rows df)"
  shows "\<exists>out. calculate_scores cfg df = Inr out \<and>
     (let scored = calculate_category_scores df;
          wc = weighted_categories cfg (columns scored)
      in set score_columns \<subseteq> set (columns scored)
         \<and> (\<forall>category w. (category, w) \<in> set (weights cfg) \<and> category \<in> set categories
                 \<and> 0 < w \<longrightarrow> (category, w) \<in> set wc)
         \<and> cell_of (rows out ! i) ''composite_score''
             = Num (if wc = [] then 0
                    else sum_list (map (\<lambda>(category, w).
                                     w * num0 (cell_of (rows scored ! i) (score_col category))) wc)
                         / sum_list (map snd wc)))"
proof -
  let ?scored = "calculate_category_scores df"
  let ?comp = "composite_values cfg ?scored"
  let ?out = "set_column ''rank'' (series_rank_desc_min ?comp)
                (set_column ''composite_score'' ?comp ?scored)"
  have i: "i < length (rows ?scored)" using assms by (simp add: length_rows_category_scores)
  have out: "calculate_scores cfg df = Inr ?out"
    by (simp add: calculate_scores_eq Let_def)
  have cols: "set score_columns \<subseteq> set (columns ?scored)"
    by (simp add: columns_category_scores)
  have std: "(category, w) \<in> set (weighted_categories cfg (columns ?scored))"
    if "(category, w) \<in> set (weights cfg)" "category \<in> set categories" "0 < w" for category w
  proof -
    have "score_col category \<in> set score_columns"
      using that(2) by (auto simp: categories_def score_columns_def score_col_def)
    then show ?thesis using that cols by (auto simp: weighted_categories_def)
  qed
  have len: "length (rows ?out) = length (rows df)"
    by (simp add: rows_set_column length_series_rank length_composite_values
          length_rows_category_scores)
  have "get_column ?out ''composite_score'' = ?comp"
    by (simp add: get_column_set_column_other get_column_set_column_same
          rows_set_column length_series_rank length_composite_values)
  then have "cell_of (rows ?out ! i) ''composite_score'' = ?comp ! i"
    using assms len by (simp add: cell_of_nth_get_column)
  then show ?thesis
    using out cols std composite_values_nth[OF i, of cfg]
    by (simp add: Let_def)
qed

theorem C1_composite_over_table_categories_witness:
  "0 < length (rows growth_only)
   \<and> composite_score_at (calculate_scores default_config growth_only) 0 = Num (3/10)"
  using C1_composite_over_table_categories[of 0 growth_only default_config]
  by (simp add: composite_score_at_def growth_only_def eval_scores)

text \<open>
  The claim as the specification states it fails on an animal that has growth data only:
  renormalized over the one category present for it the score would be 1, the code
  returns 0.3.
\<close>

theorem C1_renormalization_counterexample:
  "composite_score_at (calculate_scores default_config growth_only) 0 = Num (3/10)
   \<and> spec_renormalized_composite default_config growth_only 0 = 1
   \<and> composite_score_at (calculate_scores default_config growth_only) 0
       \<noteq> Num (spec_renormalized_composite default_config growth_only 0)"
  by (simp add: composite_score_at_def spec_renormalized_composite_def category_present_def
        category_traits_def growth_only_def eval_scores)

text \<open>
  C4. Score calculation returns a table in which every animal has a composite score and
  its rank is one plus the number of animals with a strictly higher composite score.
\<close>

theorem C4_rank_min_tiebreak:
  "\<exists>out. calculate_scores cfg df = Inr out \<and> length (rows out) = length (rows df) \<and>
     (\<forall>i<length (rows df). \<exists>x.
         cell_of (rows out ! i) ''composite_score'' = Num x
         \<and> cell_of (rows out ! i) ''rank'' = Num (1 + real (count_higher out x)))"
proof -
  let ?scored = "calculate_category_scores df"
  let ?comp = "composite_values cfg ?scored"
  let ?mid = "set_column ''composite_score'' ?comp ?scored"
  let ?out = "set_column ''rank'' (series_rank_desc_min ?comp) ?mid"
  have out: "calculate_scores cfg df = Inr ?out"
    by (simp add: calculate_scores_eq Let_def)
  have len: "length (rows ?out) = length (rows df)"
    by (simp add: rows_set_column length_series_rank length_composite_values
          length_rows_category_scores)
  have comp: "get_column ?out ''composite_score'' = ?comp"
    by (simp add: get_column_set_column_other get_column_set_column_same
          rows_set_column length_series_rank length_composite_values)
  have rank: "get_column ?out ''rank'' = series_rank_desc_min ?comp"
    by (simp add: get_column_set_column_same
          rows_set_column length_series_rank length_composite_values)
  have higher: "count_higher ?out x
      = length (filter (\<lambda>c. case c of Num y \<Rightarrow> x < y | NaN \<Rightarrow> False | NA \<Rightarrow> False) ?comp)"
    for x
  proof -
    have "count_higher ?out x
      = length (filter (\<lambda>c. case c of Num y \<Rightarrow> x < y | NaN \<Rightarrow> False | NA \<Rightarrow> False)
          (get_column ?out ''composite_score''))"
      unfolding count_higher_def get_column_def by (simp add: filter_map comp_def)
    then show ?thesis using comp by simp
  qed
  have row: "\<exists>x. cell_of (rows ?out ! i) ''composite_score'' = Num x
         \<and> cell_of (rows ?out ! i) ''rank'' = Num (1 + real (count_higher ?out x))"
    if i: "i < length (rows df)" for i
  proof -
    have il: "i < length ?comp"
      using i by (simp add: length_composite_values length_rows_category_scores)
    then have "?comp ! i \<in> set ?comp" by (rule nth_mem)
    then have "\<not> isna (?comp ! i)"
      using composite_values_num[of cfg ?scored] by blast
    then obtain x where x: "?comp ! i = Num x"
      using not_isna_Num by blast
    have "cell_of (rows ?out ! i) ''composite_score'' = Num x"
      using i len x comp by (simp add: cell_of_nth_get_column)
    moreover have "cell_of (rows ?out ! i) ''rank'' = Num (1 + real (count_higher ?out x))"
      using i len rank series_rank_nth[OF il x] higher
      by (simp add: cell_of_nth_get_column)
    ultimately show ?thesis by blast
  qed
  show ?thesis using out len row by blast
qed

text \<open>The example of the specification: composite scores 0.90, 0.90, 0.80 rank 1, 1, 3.\<close>

theorem C4_rank_min_tiebreak_witness:
  "\<exists>out. calculate_scores growth_config three_scored = Inr out
     \<and> get_column out ''composite_score'' = [Num (9/10), Num (9/10), Num (8/10)]
     \<and> get_column out ''rank'' = [Num 1, Num 1, Num 3]"
  using C4_rank_min_tiebreak[of growth_config three_scored]
  by (simp add: growth_config_def three_scored_def eval_scores)

text \<open>
  C10. A category score column that the input of score calculation already has keeps
  every value, through category scoring and through the whole score calculation; the
  health score with its inversion of footrot and dag scores is computed only when the
  table has no health score column.
\<close>

theorem C10_existing_score_columns_kept:
  assumes "c \<in> set score_columns" and "c \<in> set (columns df)"
  shows "get_column (calculate_category_scores df) c = get_column df c
         \<and> (\<exists>out. calculate_scores cfg df = Inr out \<and> get_column out c = get_column df c)
         \<and> (''health_score'' \<notin> set (columns df) \<longrightarrow>
              get_column (calculate_category_scores df) ''health_score'' = health_mean df)"
proof -
  have c: "c \<noteq> ''rank''" "c \<noteq> ''composite_score''"
    using assms(1) by (auto simp: score_columns_def)
  show ?thesis
    using get_column_category_scores[OF assms(2)] c health_score_computed[of df]
    by (simp add: calculate_scores_eq Let_def get_column_set_column_other
          length_series_rank length_composite_values rows_set_column)
qed

theorem C10_existing_score_columns_kept_witness:
  "''health_score'' \<in> set score_columns \<and> ''health_score'' \<in> set (columns health_scored)
   \<and> get_column (calculate_category_scores health_scored) ''health_score'' = [Num 4, Num 2]
   \<and> (\<exists>out. calculate_scores default_config health_scored = Inr out
          \<and> get_column out ''health_score'' = [Num 4, Num 2])"
  using C10_existing_score_columns_kept[of "''health_score''" health_scored default_config]
  by (simp add: score_columns_def health_scored_def get_column_def cell_of_def)

section \<open>Properties of the filter engine\<close>

lemma block_columns:
  "columns (fst (hard_filter_block ap name m df st)) = columns (fst st)"
  by (cases st) (simp add: hard_filter_block_def Let_def)

lemma block_rows_subset:
  "set (rows (fst (hard_filter_block ap name m df st))) \<subseteq> set (rows (fst st))"
  by (cases st) (auto simp: hard_filter_block_def Let_def)

lemma block_keeps:
  assumes "r \<in> set (rows (fst st))" "ap \<longrightarrow> m r = Some True"
  shows "r \<in> set (rows (fst (hard_filter_block ap name m df st)))"
  using assms by (cases st) (auto simp: hard_filter_block_def Let_def)

lemma block_removes:
  assumes "r \<in> set (rows df)" "ap" "m r = Some False"
  shows "r \<notin> set (rows (fst (hard_filter_block ap name m df st)))"
proof -
  have "filter (\<lambda>r. mask_not (m r) = Some True) (rows df) \<noteq> []"
    using assms by (auto simp: filter_empty_conv mask_not_def)
  then show ?thesis
    using assms by (cases st) (auto simp: hard_filter_block_def Let_def)
qed

lemma block_skipped: "hard_filter_block False name m df st = st"
  by (simp add: hard_filter_block_def)

lemma apply_hard_filters_fst:
  "fst (apply_hard_filters cfg df)
   = fst (run_blocks df (hard_filter_blocks cfg df)
            (df, \<lparr>original_count = length (rows df), filters_applied = [],
                  animals_removed = [], final_count = 0, total_removed = 0\<rparr>))"
  by (simp add: apply_hard_filters_def run_blocks_def hard_filter_blocks_def Let_def
        split: prod.splits)

lemma hard_filter_masks_blocks:
  "set (hard_filter_masks cfg df)
   = {m. \<exists>name. (True, name, m) \<in> set (hard_filter_blocks cfg df)}"
  by (force simp: hard_filter_masks_def)

lemma run_blocks_subset:
  "set (rows (fst (run_blocks df bs st))) \<subseteq> set (rows (fst st))"
proof (induction bs arbitrary: st)
  case Nil
  then show ?case by (simp add: run_blocks_def)
next
  case (Cons b bs)
  obtain ap name m where b: "b = (ap, name, m)" by (cases b) auto
  have step: "run_blocks df (b # bs) st = run_blocks df bs (hard_filter_block ap name m df st)"
    by (simp add: run_blocks_def b)
  have "set (rows (fst (run_blocks df bs (hard_filter_block ap name m df st))))
        \<subseteq> set (rows (fst (hard_filter_block ap name m df st)))"
    by (rule Cons.IH)
  also have "\<dots> \<subseteq> set (rows (fst st))"
    by (rule block_rows_subset)
  finally show ?case by (simp only: step)
qed

lemma run_blocks_keeps:
  assumes "r \<in> set (rows (fst st))"
    and "\<forall>(ap, name, m)\<in>set bs. ap \<longrightarrow> m r = Some True"
  shows "r \<in> set (rows (fst (run_blocks df bs st)))"
  using assms
proof (induction bs arbitrary: st)
  case Nil
  then show ?case by (simp add: run_blocks_def)
next
  case (Cons b bs)
  obtain ap name m where b: "b = (ap, name, m)" by (cases b) auto
  have step: "run_blocks df (b # bs) st = run_blocks df bs (hard_filter_block ap name m df st)"
    by (simp add: run_blocks_def b)
  have "r \<in> set (rows (fst (hard_filter_block ap name m df st)))"
    using Cons.prems b by (intro block_keeps) auto
  then show ?case using Cons.IH Cons.prems(2) step by simp
qed

lemma run_blocks_removes:
  assumes "r \<in> set (rows df)" "(True, name, m) \<in> set bs" "m r = Some False"
  shows "r \<notin> set (rows (fst (run_blocks df bs st)))"
  using assms(2)
proof (induction bs arbitrary: st)
  case Nil
  then show ?case by simp
next
  case (Cons b bs)
  obtain ap' name' m' where b: "b = (ap', name', m')" by (cases b) auto
  have step: "run_blocks df (b # bs) st = run_blocks df bs (hard_filter_block ap' name' m' df st)"
    by (simp add: run_blocks_def b)
  show ?case
  proof (cases "b = (True, name, m)")
    case True
    then have "r \<notin> set (rows (fst (hard_filter_block ap' name' m' df st)))"
      using block_removes[of r df True m name st] assms(1,3) b by simp
    moreover have "set (rows (fst (run_blocks df bs (hard_filter_block ap' name' m' df st))))
        \<subseteq> set (rows (fst (hard_filter_block ap' name' m' df st)))"
      by (rule run_blocks_subset)
    ultimately show ?thesis unfolding step by (rule contra_subsetD[rotated])
  next
    case False
    then have "(True, name, m) \<in> set bs" using Cons.prems by auto
    then show ?thesis using Cons.IH step by simp
  qed
qed

lemma run_blocks_columns: "columns (fst (run_blocks df bs st)) = columns (fst st)"
proof (induction bs arbitrary: st)
  case Nil
  then show ?case by (simp add: run_blocks_def)
next
  case (Cons b bs)
  obtain ap name m where b: "b = (ap, name, m)" by (cases b) auto
  have "run_blocks df (b # bs) st = run_blocks df bs (hard_filter_block ap name m df st)"
    by (simp add: run_blocks_def b)
  then show ?case using Cons.IH block_columns by simp
qed

lemma run_blocks_none:
  assumes "\<forall>(ap, name, m)\<in>set bs. \<not> ap"
  shows "run_blocks df bs st = st"
  using assms
proof (induction bs arbitrary: st)
  case Nil
  then show ?case by (simp add: run_blocks_def)
next
  case (Cons b bs)
  obtain ap name m where b: "b = (ap, name, m)" by (cases b) auto
  have "run_blocks df (b # bs) st = run_blocks df bs (hard_filter_block ap name m df st)"
    by (simp add: run_blocks_def b)
  then show ?case using Cons b by (simp add: block_skipped)
qed

lemma masks_empty_blocks:
  "hard_filter_masks cfg df = [] \<Longrightarrow> \<forall>(ap, name, m)\<in>set (hard_filter_blocks cfg df). \<not> ap"
  by (auto simp: hard_filter_masks_def filter_empty_conv)

lemma masks_all_blocks:
  assumes "\<forall>m\<in>set (hard_filter_masks cfg df). m r = Some True"
  shows "\<forall>(ap, name, m)\<in>set (hard_filter_blocks cfg df). ap \<longrightarrow> m r = Some True"
proof -
  have "m r = Some True" if "(ap, name, m) \<in> set (hard_filter_blocks cfg df)" "ap" for ap name m
  proof -
    have "(True, name, m) \<in> set (hard_filter_blocks cfg df)" using that by simp
    then have "m \<in> set (hard_filter_masks cfg df)"
      unfolding hard_filter_masks_blocks by blast
    then show ?thesis using assms by blast
  qed
  then show ?thesis by blast
qed

text \<open>
  C2 (as the code has it). A hard filter is skipped when its trait column is not in the
  record set: only the filters whose column is present (and, for breeding soundness, that
  the configuration requires) decide. An animal that passes every one of them survives,
  and an animal for which one of them evaluates to False is removed; the comparison on a
  missing NaN value is False. With no filter column in the table nothing is removed.
\<close>

theorem C2_hard_filters_skip_absent_columns:
  assumes "r \<in> set (rows df)"
  shows "((\<forall>m\<in>set (hard_filter_masks cfg df). m r = Some True)
            \<longrightarrow> r \<in> set (rows (fst (apply_hard_filters cfg df))))
       \<and> ((\<exists>m\<in>set (hard_filter_masks cfg df). m r = Some False)
            \<longrightarrow> r \<notin> set (rows (fst (apply_hard_filters cfg df))))
       \<and> (hard_filter_masks cfg df = [] \<longrightarrow> fst (apply_hard_filters cfg df) = df)"
proof (intro conjI impI)
  let ?s0 = "(df, \<lparr>original_count = length (rows df), filters_applied = [],
                  animals_removed = [], final_count = 0, total_removed = 0\<rparr>)"
  have r0: "r \<in> set (rows (fst ?s0))" using assms by simp
  {
    assume all: "\<forall>m\<in>set (hard_filter_masks cfg df). m r = Some True"
    have "r \<in> set (rows (fst (run_blocks df (hard_filter_blocks cfg df) ?s0)))"
      by (rule run_blocks_keeps[OF r0 masks_all_blocks[OF all]])
    then show "r \<in> set (rows (fst (apply_hard_filters cfg df)))"
      by (simp only: apply_hard_filters_fst simp_thms)
  }
  {
    assume "\<exists>m\<in>set (hard_filter_masks cfg df). m r = Some False"
    then obtain m where "m \<in> set (hard_filter_masks cfg df)" and mr: "m r = Some False"
      by blast
    then obtain name where m: "(True, name, m) \<in> set (hard_filter_blocks cfg df)"
      unfolding hard_filter_masks_blocks by blast
    have "r \<notin> set (rows (fst (run_blocks df (hard_filter_blocks cfg df) ?s0)))"
      by (rule run_blocks_removes[OF assms m mr])
    then show "r \<notin> set (rows (fst (apply_hard_filters cfg df)))"
      by (simp only: apply_hard_filters_fst simp_thms)
  }
  {
    assume "hard_filter_masks cfg df = []"
    then have "\<forall>(ap, name, m)\<in>set (hard_filter_blocks cfg df). \<not> ap"
      by (rule masks_empty_blocks)
    then have "run_blocks df (hard_filter_blocks cfg df) ?s0 = ?s0"
      by (rule run_blocks_none)
    then show "fst (apply_hard_filters cfg df) = df"
      by (simp only: apply_hard_filters_fst fst_conv simp_thms)
  }
qed

lemmas eval_filters = apply_hard_filters_def hard_filter_block_def Let_def mask_not_def
  cell_of_def get_column_def default_config_def

text \<open>
  The claim as the specification states it fails: the second animal has no birth weight,
  the birth weight filter cannot be evaluated for it, and it is removed.
\<close>

theorem C2_missing_value_counterexample:
  "get_column birth_weights ''wt_birth'' = [Num 3, NaN]
   \<and> get_column (fst (apply_hard_filters default_config birth_weights)) ''wt_birth'' = [Num 3]
   \<and> animals_removed (snd (apply_hard_filters default_config birth_weights))
       = [(''min_birth_weight'', 1)]"
  by (auto simp add: birth_weights_def eval_filters)

theorem C2_hard_filters_skip_absent_columns_witness:
  "[''wt_wean'' \<mapsto> Num 25] \<in> set (rows (fst (apply_hard_filters default_config weaning_weights)))
   \<and> [''wt_wean'' \<mapsto> Num 15] \<notin> set (rows (fst (apply_hard_filters default_config weaning_weights)))"
proof -
  let ?a = "[''wt_wean'' \<mapsto> Num 25]" and ?b = "[''wt_wean'' \<mapsto> Num 15]"
  have masks: "hard_filter_masks default_config weaning_weights
               = [\<lambda>r. cell_ge (cell_of r ''wt_wean'') 20]"
    by (simp add: hard_filter_masks_def hard_filter_blocks_def weaning_weights_def
          default_config_def)
  have a: "?a \<in> set (rows weaning_weights)" and b: "?b \<in> set (rows weaning_weights)"
    by (simp_all add: weaning_weights_def)
  have pa: "\<forall>m\<in>set (hard_filter_masks default_config weaning_weights). m ?a = Some True"
    by (simp add: masks cell_of_def)
  have pb: "\<exists>m\<in>set (hard_filter_masks default_config weaning_weights). m ?b = Some False"
    by (simp add: masks cell_of_def)
  show ?thesis
    using C2_hard_filters_skip_absent_columns[OF a, of default_config]
      C2_hard_filters_skip_absent_columns[OF b, of default_config] pa pb by blast
qed

subsection \<open>Cull candidates\<close>
















section \<open>Properties of the explanations\<close>

lemma truth_gt_high: "truth_gt s (7/10) = Inr b \<Longrightarrow> b = is_high s"
  by (cases s) (auto simp: is_high_def)

lemma truth_lt_low: "truth_lt s (3/10) = Inr b \<Longrightarrow> b = is_low s"
  by (cases s) (auto simp: is_low_def)

lemma high_not_low: "is_high s \<Longrightarrow> \<not> is_low s"
  by (auto simp: is_high_def is_low_def)

lemma note_categories_result:
  assumes "note_categories e cs = Inr e'"
  shows "strengths e' = strengths e @ map (\<lambda>p. strength_note (fst p)) (filter (\<lambda>p. is_high (snd p)) cs)
       \<and> weaknesses e' = weaknesses e @ map (\<lambda>p. weakness_note (fst p)) (filter (\<lambda>p. is_low (snd p)) cs)
       \<and> recommendations e' = recommendations e"
  using assms
proof (induction cs arbitrary: e)
  case Nil
  then show ?case by simp
next
  case (Cons p cs)
  obtain category score where p: "p = (category, score)" by (cases p) auto
  show ?case
  proof (cases "truth_gt score (7/10)")
    case (Inl err)
    then show ?thesis using Cons.prems p by simp
  next
    case (Inr b)
    note gt = this
    show ?thesis
    proof (cases b)
      case True
      then have h: "is_high score" using truth_gt_high[OF gt] by simp
      have "note_categories (e\<lparr>strengths := strengths e @ [strength_note category]\<rparr>) cs = Inr e'"
        using Cons.prems p gt True by simp
      from Cons.IH[OF this] show ?thesis using h high_not_low[OF h] p by simp
    next
      case False
      then have h: "\<not> is_high score" using truth_gt_high[OF gt] by simp
      show ?thesis
      proof (cases "truth_lt score (3/10)")
        case (Inl err)
        then show ?thesis using Cons.prems p gt False by simp
      next
        case (Inr b')
        note lt = this
        show ?thesis
        proof (cases b')
          case True
          then have l: "is_low score" using truth_lt_low[OF lt] by simp
          have "note_categories (e\<lparr>weaknesses := weaknesses e @ [weakness_note category]\<rparr>) cs = Inr e'"
            using Cons.prems p gt False lt True by simp
          from Cons.IH[OF this] show ?thesis using h l p by simp
        next
          case False
          then have l: "\<not> is_low score" using truth_lt_low[OF lt] by simp
          have "note_categories e cs = Inr e'"
            using Cons.prems p gt \<open>\<not> b\<close> lt False by simp
          from Cons.IH[OF this] show ?thesis using h l p by simp
        qed
      qed
    qed
  qed
qed

lemma note_categories_returns:
  assumes "\<forall>p\<in>set cs. snd p \<noteq> NA"
  shows "\<exists>e'. note_categories e cs = Inr e'"
  using assms
proof (induction cs arbitrary: e)
  case Nil
  then show ?case by simp
next
  case (Cons p cs)
  obtain category score where p: "p = (category, score)" by (cases p) auto
  have "score \<noteq> NA" using Cons.prems p by simp
  moreover have ih: "\<exists>e'. note_categories e0 cs = Inr e'" for e0
    using Cons by simp
  ultimately show ?case using p by (cases score) (simp_all split: bool.splits)
qed

lemma recommend_result:
  assumes "recommend r key txt e = Inr e'"
  shows "strengths e' = strengths e \<and> weaknesses e' = weaknesses e
       \<and> recommendations e' = recommendations e
            @ (if (\<exists>x. r key = Some (Num x) \<and> x < 3/10) then [txt] else [])"
proof (cases "r key")
  case None
  then show ?thesis using assms by (simp add: recommend_def)
next
  case (Some v)
  then show ?thesis using assms by (cases v) (auto simp: recommend_def)
qed

lemma recommend_returns:
  assumes "r key \<noteq> Some NA"
  shows "\<exists>e'. recommend r key txt e = Inr e'"
proof (cases "r key")
  case None
  then show ?thesis by (simp add: recommend_def)
next
  case (Some v)
  then show ?thesis using assms by (cases v) (auto simp: recommend_def)
qed

lemma strength_note_inj: "strength_note c = strength_note c' \<longleftrightarrow> c = c'"
  by (simp add: strength_note_def)

lemma weakness_note_inj: "weakness_note c = weakness_note c' \<longleftrightarrow> c = c'"
  by (simp add: weakness_note_def)

lemma component_scores_mem:
  "p \<in> set (component_scores r)
   \<longleftrightarrow> fst p \<in> set categories \<and> snd p = row_get r (score_col (fst p)) (Num 0)"
  by (cases p) (auto simp: component_scores_def)

lemma generate_explanation_result:
  assumes "generate_explanation r = Inr e"
  shows "strengths e = map (\<lambda>p. strength_note (fst p))
                         (filter (\<lambda>p. is_high (snd p)) (component_scores r))"
    and "weaknesses e = map (\<lambda>p. weakness_note (fst p))
                          (filter (\<lambda>p. is_low (snd p)) (component_scores r))"
    and "recommendations e =
           (if (\<exists>x. r ''growth_score'' = Some (Num x) \<and> x < 3/10)
            then [''Focus on improving growth performance''] else [])
         @ (if (\<exists>x. r ''health_score'' = Some (Num x) \<and> x < 3/10)
            then [''Address health issues''] else [])
         @ (if (\<exists>x. r ''reproduction_score'' = Some (Num x) \<and> x < 3/10)
            then [''Improve reproductive performance''] else [])"
proof -
  obtain e1 where e1: "note_categories \<lparr>strengths = [], weaknesses = [], recommendations = []\<rparr>
                         (component_scores r) = Inr e1"
    using assms by (auto simp: generate_explanation_def split: sum.splits)
  obtain e2 where e2: "recommend r ''growth_score'' ''Focus on improving growth performance'' e1 = Inr e2"
    using assms e1 by (auto simp: generate_explanation_def split: sum.splits)
  obtain e3 where e3: "recommend r ''health_score'' ''Address health issues'' e2 = Inr e3"
    using assms e1 e2 by (auto simp: generate_explanation_def split: sum.splits)
  have e4: "recommend r ''reproduction_score'' ''Improve reproductive performance'' e3 = Inr e"
    using assms e1 e2 e3 by (simp add: generate_explanation_def)
  note n = note_categories_result[OF e1] and r2 = recommend_result[OF e2]
    and r3 = recommend_result[OF e3] and r4 = recommend_result[OF e4]
  show "strengths e = map (\<lambda>p. strength_note (fst p))
                         (filter (\<lambda>p. is_high (snd p)) (component_scores r))"
    using n r2 r3 r4 by simp
  show "weaknesses e = map (\<lambda>p. weakness_note (fst p))
                          (filter (\<lambda>p. is_low (snd p)) (component_scores r))"
    using n r2 r3 r4 by simp
  show "recommendations e =
           (if (\<exists>x. r ''growth_score'' = Some (Num x) \<and> x < 3/10)
            then [''Focus on improving growth performance''] else [])
         @ (if (\<exists>x. r ''health_score'' = Some (Num x) \<and> x < 3/10)
            then [''Address health issues''] else [])
         @ (if (\<exists>x. r ''reproduction_score'' = Some (Num x) \<and> x < 3/10)
            then [''Improve reproductive performance''] else [])"
    using n r2 r3 r4 by simp
qed

lemma generate_explanation_returns:
  assumes "\<forall>c\<in>set categories. r (score_col c) \<noteq> Some NA"
  shows "\<exists>e. generate_explanation r = Inr e"
proof -
  have keys: "r ''growth_score'' \<noteq> Some NA" "r ''health_score'' \<noteq> Some NA"
    "r ''reproduction_score'' \<noteq> Some NA"
    using assms by (simp_all add: categories_def score_col_def)
  have "\<forall>p\<in>set (component_scores r). snd p \<noteq> NA"
    using assms by (auto simp: component_scores_def row_get_def split: option.splits)
  then obtain e1 where e1: "note_categories \<lparr>strengths = [], weaknesses = [], recommendations = []\<rparr>
                         (component_scores r) = Inr e1"
    using note_categories_returns by blast
  obtain e2 where e2: "recommend r ''growth_score'' ''Focus on improving growth performance'' e1 = Inr e2"
    using recommend_returns keys by blast
  obtain e3 where e3: "recommend r ''health_score'' ''Address health issues'' e2 = Inr e3"
    using recommend_returns keys by blast
  obtain e4 where e4: "recommend r ''reproduction_score'' ''Improve reproductive performance'' e3 = Inr e4"
    using recommend_returns keys by blast
  show ?thesis using e1 e2 e3 e4 by (simp add: generate_explanation_def)
qed

text \<open>
  C9 (as the code has it). For every row none of whose category scores is NA, the missing
  value of a nullable column, an explanation is returned, and in it, for every trait
  category: a strength note stands exactly when the category score is strictly above 0.7,
  a weakness note exactly when it is below 0.3, where a score the row does not have counts
  as 0; the recommendation for growth, health or reproduction stands exactly when the row
  has that score and it is below 0.3.
\<close>

theorem C9_explanation_thresholds:
  assumes "\<forall>c\<in>set categories. r (score_col c) \<noteq> Some NA" and "category \<in> set categories"
  shows "\<exists>e. generate_explanation r = Inr e \<and>
         (strength_note category \<in> set (strengths e)
            \<longleftrightarrow> (\<exists>x. row_get r (score_col category) (Num 0) = Num x \<and> 7/10 < x))
       \<and> (weakness_note category \<in> set (weaknesses e)
            \<longleftrightarrow> (\<exists>x. row_get r (score_col category) (Num 0) = Num x \<and> x < 3/10))
       \<and> (''Focus on improving growth performance'' \<in> set (recommendations e)
            \<longleftrightarrow> (\<exists>x. r ''growth_score'' = Some (Num x) \<and> x < 3/10))
       \<and> (''Address health issues'' \<in> set (recommendations e)
            \<longleftrightarrow> (\<exists>x. r ''health_score'' = Some (Num x) \<and> x < 3/10))
       \<and> (''Improve reproductive performance'' \<in> set (recommendations e)
            \<longleftrightarrow> (\<exists>x. r ''reproduction_score'' = Some (Num x) \<and> x < 3/10))"
proof -
  obtain e where e: "generate_explanation r = Inr e"
    using generate_explanation_returns[OF assms(1)] by blast
  note res = generate_explanation_result[OF e]
  have s: "strength_note category \<in> set (strengths e)
            \<longleftrightarrow> is_high (row_get r (score_col category) (Num 0))"
    using assms(2) unfolding res(1)
    by (auto simp: component_scores_mem strength_note_inj image_iff)
  have w: "weakness_note category \<in> set (weaknesses e)
            \<longleftrightarrow> is_low (row_get r (score_col category) (Num 0))"
    using assms(2) unfolding res(2)
    by (auto simp: component_scores_mem weakness_note_inj image_iff)
  have g: "''Focus on improving growth performance'' \<in> set (recommendations e)
            \<longleftrightarrow> (\<exists>x. r ''growth_score'' = Some (Num x) \<and> x < 3/10)"
    unfolding res(3) by simp
  have h: "''Address health issues'' \<in> set (recommendations e)
            \<longleftrightarrow> (\<exists>x. r ''health_score'' = Some (Num x) \<and> x < 3/10)"
    unfolding res(3) by simp
  have p: "''Improve reproductive performance'' \<in> set (recommendations e)
            \<longleftrightarrow> (\<exists>x. r ''reproduction_score'' = Some (Num x) \<and> x < 3/10)"
    unfolding res(3) by simp
  show ?thesis using e s w g h p unfolding is_high_def is_low_def by blast
qed

lemmas eval_explanation = generate_explanation_def component_scores_def categories_def
  score_col_def row_get_def recommend_def strength_note_def weakness_note_def

theorem C9_explanation_thresholds_witness:
  "generate_explanation strong_growth_poor_health
     = Inr \<lparr> strengths = [''Strong growth performance''],
             weaknesses = [''Poor wool performance'', ''Poor reproduction performance'',
                           ''Poor health performance'', ''Poor temperament performance''],
             recommendations = [''Address health issues''] \<rparr>"
  using C9_explanation_thresholds[of strong_growth_poor_health "''health''"]
  by (simp add: strong_growth_poor_health_def eval_explanation)

text \<open>
  The claim as the specification states it fails at a growth score of exactly 0.7: no
  strength note is emitted. The same row has no health score: the weakness note for health
  is emitted (the score counts as 0) and the health recommendation is not. And for a row
  whose temperament score is NA no note is emitted at all: the comparison raises.
\<close>

theorem C9_threshold_counterexample:
  "generate_explanation growth_at_threshold
     = Inr \<lparr> strengths = [],
             weaknesses = [''Poor wool performance'', ''Poor reproduction performance'',
                           ''Poor health performance'', ''Poor temperament performance''],
             recommendations = [] \<rparr>
   \<and> generate_explanation temperament_unknown
       = Inl (TypeError ''boolean value of NA is ambiguous'')"
  by (simp add: growth_at_threshold_def temperament_unknown_def eval_explanation)

text \<open>A category score that is NA makes the generation raise, whatever the other scores.\<close>

lemma note_categories_raises:
  assumes "(category, NA) \<in> set cs"
  shows "\<exists>err. note_categories e cs = Inl err"
  using assms
proof (induction cs arbitrary: e)
  case Nil
  then show ?case by simp
next
  case (Cons p cs)
  obtain c score where p: "p = (c, score)" by (cases p) auto
  show ?case
  proof (cases score)
    case NA
    then show ?thesis using p by simp
  next
    case (Num x)
    then have "(category, NA) \<in> set cs" using Cons.prems p by auto
    then have "\<exists>err. note_categories e0 cs = Inl err" for e0 by (rule Cons.IH)
    then show ?thesis using p Num by (simp split: bool.splits)
  next
    case NaN
    then have "(category, NA) \<in> set cs" using Cons.prems p by auto
    then have "\<exists>err. note_categories e0 cs = Inl err" for e0 by (rule Cons.IH)
    then show ?thesis using p NaN by simp
  qed
qed

lemma generate_explanation_raises:
  assumes "category \<in> set categories" "r (score_col category) = Some NA"
  shows "\<exists>err. generate_explanation r = Inl err"
proof -
  have "(category, NA) \<in> set (component_scores r)"
    using assms by (auto simp: component_scores_def row_get_def)
  then obtain err where
    "note_categories \<lparr>strengths = [], weaknesses = [], recommendations = []\<rparr>
       (component_scores r) = Inl err"
    using note_categories_raises by blast
  then show ?thesis by (simp add: generate_explanation_def)
qed

section \<open>Properties of contemporary grouping\<close>

lemma dict_set_keys: "fst ` set (dict_set k v d) = insert k (fst ` set d)"
  by (force simp: dict_set_def image_iff split: if_splits)

lemma window_loop_keys:
  assumes "window_loop dtype w as (d, n, st) = Inr d'"
  shows "fst ` set d' \<subseteq> fst ` set d \<union> animal_id ` set as"
  using assms
proof (induction as arbitrary: d n st)
  case Nil
  then show ?case by simp
next
  case (Cons a as)
  have step: "fst ` set d' \<subseteq> fst ` set d \<union> animal_id ` set (a # as)"
    if "window_loop dtype w as (dict_set (animal_id a) v d, n', st') = Inr d'" for v n' st'
    using Cons.IH[OF that] by (auto simp: dict_set_keys)
  show ?case
  proof (cases st)
    case None
    then show ?thesis using Cons.prems step by simp
  next
    case (Some start)
    then show ?thesis using Cons.prems step
      by (auto split: sum.splits bool.splits simp del: set_simps image_insert)
  qed
qed

lemma set_sort_by_birth_date: "set (sort_by_birth_date g) = set g"
  by (auto simp: sort_by_birth_date_def)

lemma group_by_birth_window_keys:
  assumes "group_by_birth_window dtype w cols g = Inr d"
  shows "fst ` set d \<subseteq> animal_id ` set g"
proof (cases "g = [] \<or> ''birth_date'' \<notin> set cols")
  case True
  then show ?thesis using assms by (auto simp: group_by_birth_window_def)
next
  case False
  then have "window_loop dtype w (sort_by_birth_date g) ([], 1, None) = Inr d"
    using assms by (auto simp: group_by_birth_window_def split: if_splits)
  from window_loop_keys[OF this] show ?thesis
    by (simp add: set_sort_by_birth_date)
qed

text \<open>On timestamps the window test never raises, so the loop returns.\<close>

lemma within_window_timestamps: "\<exists>b'. within_window Datetime64 w b start = Inr b'"
  by (cases b; cases start) (auto simp: within_window_def)

lemma window_loop_returns:
  "\<exists>d'. window_loop Datetime64 w as (d, n, st) = Inr d'"
proof (induction as arbitrary: d n st)
  case Nil
  then show ?case by simp
next
  case (Cons a as)
  show ?case
  proof (cases st)
    case None
    then show ?thesis using Cons.IH by simp
  next
    case (Some start)
    obtain b' where "within_window Datetime64 w (birth_date a) start = Inr b'"
      using within_window_timestamps by blast
    then show ?thesis using Some Cons.IH by (cases b') simp_all
  qed
qed

lemma group_by_birth_window_returns:
  assumes "''animal_id'' \<in> set cols"
  shows "\<exists>d. group_by_birth_window Datetime64 w cols g = Inr d"
  using assms window_loop_returns by (simp add: group_by_birth_window_def)

lemma length_assign_groups:
  "length col = length as \<Longrightarrow> length (assign_groups as items col) = length as"
  by (induction as items col rule: assign_groups.induct) simp_all

lemma assign_groups_other:
  assumes "length col = length as" "i < length as" "animal_id (as ! i) \<notin> fst ` set items"
  shows "assign_groups as items col ! i = col ! i"
  using assms
  by (induction as items col rule: assign_groups.induct) auto

lemma groups_loop_returns:
  assumes "''animal_id'' \<in> set (hcolumns h)" "birth_date_dtype h = Datetime64"
  shows "\<exists>col'. groups_loop w h mgs col = Inr col'"
proof (induction mgs arbitrary: col)
  case Nil
  then show ?case by simp
next
  case (Cons mg mgs)
  let ?g = "case mg of None \<Rightarrow> [] | Some g \<Rightarrow> filter (\<lambda>a. mgmt_group a = Some g) (animals h)"
  show ?case
  proof (cases "''birth_date'' \<in> set (hcolumns h)")
    case False
    then show ?thesis using Cons by (simp add: Let_def)
  next
    case True
    obtain d where d: "group_by_birth_window Datetime64 w (hcolumns h) ?g = Inr d"
      using group_by_birth_window_returns[OF assms(1)] by blast
    show ?thesis using True d assms(2) Cons.IH by (simp add: Let_def)
  qed
qed

lemma groups_loop_length:
  assumes "length col = length (animals h)" "groups_loop w h mgs col = Inr col'"
  shows "length col' = length (animals h)"
  using assms
proof (induction mgs arbitrary: col)
  case Nil
  then show ?case by simp
next
  case (Cons mg mgs)
  let ?g = "case mg of None \<Rightarrow> [] | Some g \<Rightarrow> filter (\<lambda>a. mgmt_group a = Some g) (animals h)"
  show ?case
  proof (cases "''birth_date'' \<in> set (hcolumns h)")
    case False
    then have "groups_loop w h mgs col = Inr col'" using Cons.prems(2) by (simp add: Let_def)
    then show ?thesis using Cons.IH Cons.prems(1) by blast
  next
    case True
    obtain d where d: "group_by_birth_window (birth_date_dtype h) w (hcolumns h) ?g = Inr d"
      using Cons.prems(2) True by (auto simp: Let_def split: sum.splits)
    have loop: "groups_loop w h mgs (assign_groups (animals h) d col) = Inr col'"
      using Cons.prems(2) True d by (simp add: Let_def)
    have len: "length (assign_groups (animals h) d col) = length (animals h)"
      using Cons.prems(1) by (rule length_assign_groups)
    show ?thesis by (rule Cons.IH[OF len loop])
  qed
qed

lemma groups_loop_keeps_none:
  assumes "distinct (map animal_id (animals h))"
    and "i < length (animals h)" "mgmt_group (animals h ! i) = None"
    and "length col = length (animals h)" "col ! i = None"
    and "groups_loop w h mgs col = Inr col'"
  shows "col' ! i = None"
  using assms(4-6)
proof (induction mgs arbitrary: col)
  case Nil
  then show ?case by simp
next
  case (Cons mg mgs)
  let ?g = "case mg of None \<Rightarrow> [] | Some g \<Rightarrow> filter (\<lambda>a. mgmt_group a = Some g) (animals h)"
  show ?case
  proof (cases "''birth_date'' \<in> set (hcolumns h)")
    case False
    then have "groups_loop w h mgs col = Inr col'" using Cons.prems(3) by (simp add: Let_def)
    then show ?thesis using Cons.IH Cons.prems(1,2) by blast
  next
    case True
    obtain d where d: "group_by_birth_window (birth_date_dtype h) w (hcolumns h) ?g = Inr d"
      using Cons.prems(3) True by (auto simp: Let_def split: sum.splits)
    have loop: "groups_loop w h mgs (assign_groups (animals h) d col) = Inr col'"
      using Cons.prems(3) True d by (simp add: Let_def)
    have "animal_id (animals h ! i) \<notin> animal_id ` set ?g"
    proof
      assume "animal_id (animals h ! i) \<in> animal_id ` set ?g"
      then obtain a where a: "a \<in> set ?g" "animal_id a = animal_id (animals h ! i)" by auto
      then have mem: "a \<in> set (animals h)" "mgmt_group a \<noteq> None"
        by (auto split: option.splits)
      have "animals h ! i \<in> set (animals h)" using assms(2) by simp
      then have "a = animals h ! i"
        using assms(1) mem(1) a(2) by (meson distinct_map inj_onD)
      then show False using mem(2) assms(3) by simp
    qed
    then have "animal_id (animals h ! i) \<notin> fst ` set d"
      using group_by_birth_window_keys[OF d] by blast
    then have same: "assign_groups (animals h) d col ! i = None"
      using assign_groups_other[OF Cons.prems(1) assms(2)] Cons.prems(2) by simp
    have len: "length (assign_groups (animals h) d col) = length (animals h)"
      using Cons.prems(1) by (rule length_assign_groups)
    show ?thesis by (rule Cons.IH[OF len same loop])
  qed
qed

text \<open>
  C6 (as the code has it). On a table that has the identifier and management group
  columns and unique identifiers: when the birth dates are a datetime64 column,
  contemporary-group assignment returns for every content of that column, missing dates
  included; and whenever assignment returns, every animal lacking a management group has
  no cohort.
\<close>

theorem C6_assignment_returns_and_skips_ungrouped:
  assumes "''mgmt_group'' \<in> set (hcolumns h)" and "''animal_id'' \<in> set (hcolumns h)"
    and "distinct (map animal_id (animals h))"
  shows "(birth_date_dtype h = Datetime64 \<longrightarrow> (\<exists>col. create_contemporary_groups w h = Inr col))
       \<and> (\<forall>col. create_contemporary_groups w h = Inr col \<longrightarrow>
             length col = length (animals h)
             \<and> (\<forall>i<length (animals h). mgmt_group (animals h ! i) = None \<longrightarrow> col ! i = None))"
proof (intro conjI impI allI)
  let ?col0 = "replicate (length (animals h)) (None :: string option)"
  let ?mgs = "unique (map mgmt_group (animals h))"
  have create: "create_contemporary_groups w h = groups_loop w h ?mgs ?col0"
    using assms(1) by (simp add: create_contemporary_groups_def)
  {
    assume "birth_date_dtype h = Datetime64"
    then show "\<exists>col. create_contemporary_groups w h = Inr col"
      unfolding create by (rule groups_loop_returns[OF assms(2)])
  }
  fix col
  assume "create_contemporary_groups w h = Inr col"
  then have loop: "groups_loop w h ?mgs ?col0 = Inr col" by (simp only: create)
  have l0: "length ?col0 = length (animals h)" by simp
  show "length col = length (animals h)"
    by (rule groups_loop_length[OF l0 loop])
  fix i
  assume i: "i < length (animals h)" and none: "mgmt_group (animals h ! i) = None"
  have c0: "?col0 ! i = None" using i by simp
  show "col ! i = None"
    by (rule groups_loop_keeps_none[OF assms(3) i none l0 c0 loop])
qed

lemmas eval_grouping = create_contemporary_groups_def unique_def Let_def
  group_by_birth_window_def sort_by_birth_date_def date_key_def within_window_def
  group_name_def mgmt_label_def dict_set_def str_nat.simps digit_char_def

theorem C6_assignment_returns_and_skips_ungrouped_witness:
  "create_contemporary_groups 30 ungrouped_herd = Inr [Some ''MOB1_G1'', None, Some ''MOB1_G2'']"
  using C6_assignment_returns_and_skips_ungrouped[of ungrouped_herd 30]
  by (simp add: ungrouped_herd_def eval_grouping)

text \<open>
  The claim as the specification states it fails twice on a herd whose second animal has
  a management group and no birth date. With timestamps the animal is sorted last, its
  distance to the window start is not a number, and it opens a cohort of its own. With
  date objects the subtraction of the window start from its missing date raises.
\<close>

theorem C6_undated_animal_counterexample:
  "birth_date (animals undated_herd ! 1) = None
   \<and> create_contemporary_groups 30 undated_herd = Inr [Some ''MOB1_G1'', Some ''MOB1_G2'']
   \<and> create_contemporary_groups 30 undated_herd_of_date_objects
       = Inl (TypeError ''unsupported operand type(s) for -'')"
  by (simp add: undated_herd_of_date_objects_def undated_herd_def eval_grouping)

end
